theory Spec2Isabelle
  imports Main
begin

section \<open>Data model (src/types/index.ts)\<close>

text \<open>
  Strings are lists of 8-bit code units. Fields that hold a point in time
  (\<open>generatedAt\<close>, \<open>timestamp\<close>, \<open>appliedAt\<close>) and the measured
  \<open>executionTime\<close> are left out: no decision of the program reads them.
  An optional field (\<open>error?: string\<close>) is an \<open>option\<close>.
\<close>

datatype TestType = junit | jest | cypress

datatype Stage = parsing | generating | executing | fixing | validating | completed | failed

record Requirement =
  req_id :: string
  req_description :: string

record TestCase =
  tc_id :: string
  tc_name :: string
  tc_description :: string
  tc_type :: TestType
  tc_code :: string
  tc_targetFunction :: string
  tc_filePath :: string
  tc_requirements :: "string list option"

record TestResult =
  testCaseId :: string
  passed :: bool
  error :: "string option"
  stackTrace :: "string option"
  tr_output :: "string option"

record BugFix =
  bf_id :: string
  bf_testCaseId :: string
  bf_testResultId :: string
  bf_description :: string
  originalCode :: string
  fixedCode :: string
  bf_filePath :: string
  lineStart :: nat
  lineEnd :: nat
  applied :: bool
  validated :: bool

text \<open>
  \<open>WorkflowState.testCases\<close> is an array of object references: the
  workflow's local array \<open>testCases\<close> and \<open>state.testCases\<close> are one
  array, and its elements are the objects the test-case store handed out.
\<close>

record WorkflowState =
  stage :: Stage
  testCases :: "nat list"
  testResults :: "TestResult list"
  bugFixes :: "BugFix list"
  errors :: "string list"

section \<open>Strings of the JavaScript runtime\<close>

text \<open>
  A string is a list of code units, written as \<open>char\<close>. The case mappings
  change the ASCII letters and keep every other code unit; the texts the program
  looks for are ASCII. An upper-case ASCII letter has bit 5 clear, and setting it
  adds 32, which gives the lower-case letter.
\<close>

definition isUpperAscii :: "char \<Rightarrow> bool" where
  "isUpperAscii c \<longleftrightarrow> 65 \<le> (of_char c :: nat) \<and> (of_char c :: nat) \<le> 90"

definition isLowerAscii :: "char \<Rightarrow> bool" where
  "isLowerAscii c \<longleftrightarrow> 97 \<le> (of_char c :: nat) \<and> (of_char c :: nat) \<le> 122"

definition toLowerCaseChar :: "char \<Rightarrow> char" where
  "toLowerCaseChar c =
     (if isUpperAscii c
      then (case c of Char b0 b1 b2 b3 b4 b5 b6 b7 \<Rightarrow> Char b0 b1 b2 b3 b4 True b6 b7)
      else c)"

definition toUpperCaseChar :: "char \<Rightarrow> char" where
  "toUpperCaseChar c =
     (if isLowerAscii c
      then (case c of Char b0 b1 b2 b3 b4 b5 b6 b7 \<Rightarrow> Char b0 b1 b2 b3 b4 False b6 b7)
      else c)"

definition toLowerCase :: "string \<Rightarrow> string" where
  "toLowerCase s = map toLowerCaseChar s"

definition toUpperCase :: "string \<Rightarrow> string" where
  "toUpperCase s = map toUpperCaseChar s"

lemma toLowerCase_sample: "toLowerCase ''Cannot FIND symbol: Foo_1 @[{'' = ''cannot find symbol: foo_1 @[{''"
  by (simp add: toLowerCase_def toLowerCaseChar_def isUpperAscii_def)

lemma toUpperCase_sample: "toUpperCase ''Test az AZ 09 @[{'' = ''TEST AZ AZ 09 @[{''"
  by (simp add: toUpperCase_def toUpperCaseChar_def isLowerAscii_def)

text \<open>\<open>text.includes(p)\<close>: \<open>p\<close> occurs in \<open>text\<close> as a contiguous piece.\<close>

primrec includes_str :: "string \<Rightarrow> string \<Rightarrow> bool" where
  "includes_str [] p = (p = [])"
| "includes_str (c # cs) p = (take (length p) (c # cs) = p \<or> includes_str cs p)"

text \<open>
  White space (\<open>trim\<close>, \<open>\s\<close>). Among the code units a \<open>char\<close> can
  hold these are tab, line feed, vertical tab, form feed, carriage return, space
  and the no-break space U+00A0; the other white-space characters of the language
  (U+FEFF, U+2028, U+2029 and the space separators from U+1680 on) lie above 255.
\<close>

definition isSpace :: "char \<Rightarrow> bool" where
  "isSpace c \<longleftrightarrow>
     c \<in> set [CHR 0x09, CHR 0x0A, CHR 0x0B, CHR 0x0C, CHR 0x0D, CHR '' '', CHR 0xA0]"

definition trim :: "string \<Rightarrow> string" where
  "trim s = rev (dropWhile isSpace (rev (dropWhile isSpace s)))"

text \<open>\<open>s.split('\n').length\<close>\<close>

definition lineCount :: "string \<Rightarrow> nat" where
  "lineCount s = Suc (length (filter (\<lambda>c. c = CHR 0x0A) s))"

text \<open>\<open>xs.join('\n')\<close>\<close>

fun joinLines :: "string list \<Rightarrow> string" where
  "joinLines [] = []"
| "joinLines [x] = x"
| "joinLines (x # y # ys) = x @ [CHR 0x0A] @ joinLines (y # ys)"

text \<open>
  The clean-up of a generated text:
  \<open>.replace(/```(typescript|javascript|java|python)?\n?/g, '').replace(/```\n?/g, '').trim()\<close>.
  A match starts at three backquotes (code unit \<open>0x60\<close>); the optional language
  name is tried in the order of the alternation, then one optional line feed. Both
  parts are optional, so the first way to match is the one taken, and the search
  goes on behind the match.
\<close>

definition fence :: string where
  "fence = [CHR 0x60, CHR 0x60, CHR 0x60]"

definition dropLang :: "string \<Rightarrow> string" where
  "dropLang s =
     (if take 10 s = ''typescript'' then drop 10 s
      else if take 10 s = ''javascript'' then drop 10 s
      else if take 4 s = ''java'' then drop 4 s
      else if take 6 s = ''python'' then drop 6 s
      else s)"

definition dropNewline :: "string \<Rightarrow> string" where
  "dropNewline s = (if take 1 s = [CHR 0x0A] then drop 1 s else s)"

lemma length_dropLang: "length (dropLang s) \<le> length s"
  by (simp add: dropLang_def)

lemma length_dropNewline: "length (dropNewline s) \<le> length s"
  by (simp add: dropNewline_def)

function removeFences :: "bool \<Rightarrow> string \<Rightarrow> string" where
  "removeFences lang s =
     (if s = [] then []
      else if take 3 s = fence
        then removeFences lang (dropNewline ((if lang then dropLang else id) (drop 3 s)))
      else hd s # removeFences lang (tl s))"
  by pat_completeness auto
termination
proof (relation "measure (\<lambda>(lang, s). length s)")
  show "wf (measure (\<lambda>(lang, s). length s))" by simp
next
  fix lang :: bool and s :: string
  assume "s \<noteq> []" and f: "take 3 s = fence"
  have "length (take 3 s) = 3" by (simp add: f fence_def)
  then have "3 \<le> length s" by simp
  moreover have "length (dropNewline ((if lang then dropLang else id) (drop 3 s)))
      \<le> length (drop 3 s)"
    using length_dropNewline length_dropLang
    by (metis (full_types) id_apply order_trans)
  ultimately show "((lang, dropNewline ((if lang then dropLang else id) (drop 3 s))), (lang, s))
         \<in> measure (\<lambda>(lang, s). length s)"
    by simp
next
  fix lang :: bool and s :: string
  assume "s \<noteq> []"
  then show "((lang, tl s), (lang, s)) \<in> measure (\<lambda>(lang, s). length s)"
    by (cases s) simp_all
qed

declare removeFences.simps [simp del]

definition cleanMarkdown :: "string \<Rightarrow> string" where
  "cleanMarkdown s = trim (removeFences False (removeFences True s))"

section \<open>Thrown errors and the world outside the repository\<close>

text \<open>
  A thrown value: its \<open>message\<close> and \<open>stack\<close>, and for a failed child process
  the \<open>stdout\<close> and \<open>stderr\<close> that \<open>exec\<close> attaches to the error. An empty
  string stands for an absent text too (the program tests them with \<open>||\<close>).
\<close>

record Thrown =
  message :: string
  stack :: string
  thrown_stdout :: string
  thrown_stderr :: string

definition newError :: "string \<Rightarrow> Thrown" where
  "newError msg = \<lparr>message = msg, stack = msg, thrown_stdout = [], thrown_stderr = []\<rparr>"

record ExecOutput =
  stdout :: string
  stderr :: string

text \<open>The reply of the generation service: \<open>response.content\<close> is a string, or
  something else, of which the program takes \<open>JSON.stringify\<close> (carried here).\<close>

datatype Content = Text string | Structured string

definition contentText :: "Content \<Rightarrow> string" where
  "contentText c = (case c of Text s \<Rightarrow> s | Structured j \<Rightarrow> j)"

text \<open>The three prompts of the fix agent, by the values their templates embed.\<close>

datatype Prompt =
    AnalysisPrompt TestCase TestResult string string
  | FixTestPrompt TestCase TestResult string
  | FixSourcePrompt TestCase TestResult string string

text \<open>The JSON report of the Jest reporter, as far as the program reads it.\<close>

record Assertion =
  status :: string
  failureMessages :: "string list option"

record Suite =
  assertionResults :: "Assertion list option"

record JestReport =
  numFailedTests :: "int option"
  jr_testResults :: "Suite list option"

text \<open>
  The operations the repository calls and does not define: the uuid library, the
  generation service (\<open>initAzureChatModel\<close> reads the environment and may throw,
  \<open>model.invoke\<close>), the file system, \<open>child_process.exec\<close>, the download of the
  JUnit jar (\<open>ensureJUnitJar\<close> catches every error of its own and returns a path
  or null), \<open>JSON.parse\<close> (\<open>None\<close>: it throws, or it returns \<open>null\<close>, whose
  first property read throws in the same \<open>try\<close>), \<open>path.join\<close> below
  \<open>process.cwd()\<close> (\<open>p_tempDir\<close> is the directory \<open>temp\<close>, \<open>p_tempPath name\<close>
  a file in it), and the production of test-case drafts from a source file
  (\<open>parseCodeMetadata\<close> followed by a generator). Each acts on the outside state
  \<open>'x\<close> and returns a value or throws (\<open>Inl\<close>). \<open>p_tick\<close> and \<open>p_cross\<close> are
  the code units U+2714 and U+2718 that the JUnit console prints for a passed and a
  failed test; they lie outside the 8 bits of \<open>char\<close>.
\<close>

record 'x prims =
  p_uuidv4 :: "'x \<Rightarrow> string \<times> 'x"
  p_initAzureChatModel :: "'x \<Rightarrow> (Thrown + unit) \<times> 'x"
  p_invoke :: "Prompt \<Rightarrow> 'x \<Rightarrow> (Thrown + Content) \<times> 'x"
  p_readFile :: "string \<Rightarrow> 'x \<Rightarrow> (Thrown + string) \<times> 'x"
  p_writeFile :: "string \<Rightarrow> string \<Rightarrow> 'x \<Rightarrow> (Thrown + unit) \<times> 'x"
  p_mkdir :: "string \<Rightarrow> 'x \<Rightarrow> (Thrown + unit) \<times> 'x"
  p_unlink :: "string \<Rightarrow> 'x \<Rightarrow> (Thrown + unit) \<times> 'x"
  p_execAsync :: "string \<Rightarrow> nat \<Rightarrow> 'x \<Rightarrow> (Thrown + ExecOutput) \<times> 'x"
  p_ensureJUnitJar :: "'x \<Rightarrow> string option \<times> 'x"
  p_JSON_parse :: "string \<Rightarrow> JestReport option"
  p_tempPath :: "string \<Rightarrow> string"
  p_tempDir :: string
  p_tick :: char
  p_cross :: char
  p_generateDrafts ::
    "string \<Rightarrow> TestType \<Rightarrow> Requirement list option \<Rightarrow> 'x \<Rightarrow> (Thrown + TestCase list) \<times> 'x"

section \<open>What the program prints, publishes, writes and runs\<close>

text \<open>One constructor for each \<open>console.log\<close> / \<open>console.error\<close> of the workflow.\<close>

datatype ConsoleLine =
    LogStarting string
  | LogStage1
  | LogGenerated nat
  | LogStage2
  | LogPassed nat
  | LogFailed nat
  | LogAllPassed
  | LogStage3
  | LogFixAttempt int int
  | LogFixing "string option"
  | LogErrorPreview string bool
  | LogFixGenerated string
  | LogFixType string
  | LogFixApplied
  | LogTestCaseUpdated
  | LogFixFailed string
  | LogStage4
  | LogRetestResults
  | LogAllPassingAfterFix
  | LogStillFailing int
  | LogReviewFixes
  | LogWorkflowFailed string

text \<open>The events handed to \<open>ablyService.publishEvent\<close>, by their \<open>type\<close>.\<close>

datatype WorkflowEvent =
    workflow_started
  | workflow_stage_changed Stage
  | workflow_test_generated nat
  | workflow_test_executed nat nat bool
  | workflow_progress int nat
  | workflow_fix_generated string string
  | workflow_completed
  | workflow_failed

text \<open>
  The world a run acts on. \<open>heap\<close> holds the TestCase objects by reference
  (\<open>nextRef\<close> is the next fresh reference). The three \<open>stored...\<close> maps are
  the module-level singletons \<open>testCaseStore\<close> and \<open>bugFixStore\<close>
  (a \<open>Map\<close> from id to entry; of an entry only \<open>data\<close> is kept).
  \<open>written\<close> and \<open>commands\<close> record, in order, the files the program
  writes and the shell commands it starts. \<open>ext\<close> is the state of everything
  outside the repository (generation service, file system, child processes).
\<close>

record 'x world =
  heap :: "nat \<Rightarrow> TestCase"
  nextRef :: nat
  storedTestCases :: "string \<rightharpoonup> nat"
  storedTestResults :: "string \<rightharpoonup> TestResult"
  storedBugFixes :: "string \<rightharpoonup> BugFix"
  written :: "(string \<times> string) list"
  commands :: "string list"
  ext :: 'x

section \<open>Calls into the outside world\<close>

definition outside :: "('x \<Rightarrow> 'a \<times> 'x) \<Rightarrow> 'x world \<Rightarrow> 'a \<times> 'x world" where
  "outside f w = (let (a, x') = f (ext w) in (a, w\<lparr>ext := x'\<rparr>))"

definition uuidv4 :: "'x prims \<Rightarrow> 'x world \<Rightarrow> string \<times> 'x world" where
  "uuidv4 P w = outside (p_uuidv4 P) w"

definition initAzureChatModel :: "'x prims \<Rightarrow> 'x world \<Rightarrow> (Thrown + unit) \<times> 'x world" where
  "initAzureChatModel P w = outside (p_initAzureChatModel P) w"

definition invoke :: "'x prims \<Rightarrow> Prompt \<Rightarrow> 'x world \<Rightarrow> (Thrown + Content) \<times> 'x world" where
  "invoke P prompt w = outside (p_invoke P prompt) w"

definition readFile :: "'x prims \<Rightarrow> string \<Rightarrow> 'x world \<Rightarrow> (Thrown + string) \<times> 'x world" where
  "readFile P path w = outside (p_readFile P path) w"

definition writeFile ::
  "'x prims \<Rightarrow> string \<Rightarrow> string \<Rightarrow> 'x world \<Rightarrow> (Thrown + unit) \<times> 'x world" where
  "writeFile P path content w =
     outside (p_writeFile P path content) (w\<lparr>written := written w @ [(path, content)]\<rparr>)"

definition execAsync ::
  "'x prims \<Rightarrow> string \<Rightarrow> nat \<Rightarrow> 'x world \<Rightarrow> (Thrown + ExecOutput) \<times> 'x world" where
  "execAsync P command timeout w =
     outside (p_execAsync P command timeout) (w\<lparr>commands := commands w @ [command]\<rparr>)"

definition mkdir :: "'x prims \<Rightarrow> string \<Rightarrow> 'x world \<Rightarrow> (Thrown + unit) \<times> 'x world" where
  "mkdir P path w = outside (p_mkdir P path) w"

definition unlink :: "'x prims \<Rightarrow> string \<Rightarrow> 'x world \<Rightarrow> (Thrown + unit) \<times> 'x world" where
  "unlink P path w = outside (p_unlink P path) w"

definition ensureJUnitJar :: "'x prims \<Rightarrow> 'x world \<Rightarrow> string option \<times> 'x world" where
  "ensureJUnitJar P w = outside (p_ensureJUnitJar P) w"

section \<open>TestCaseStore (src/data/testCaseStore.ts)\<close>

text \<open>
  \<open>storeTestCase\<close>: a test case that has a non-empty id is stored under it,
  any other under a fresh uuid; in both cases a new object is made by spread,
  stored and returned.
\<close>

definition storeTestCase :: "'x prims \<Rightarrow> TestCase \<Rightarrow> 'x world \<Rightarrow> nat \<times> 'x world" where
  "storeTestCase P testCase w =
     (if tc_id testCase \<noteq> [] then
        (let i = tc_id testCase; fullTestCase = testCase; r = nextRef w
         in (r, w\<lparr>heap := (heap w)(r := fullTestCase), nextRef := Suc r,
                  storedTestCases := (storedTestCases w)(i \<mapsto> r)\<rparr>))
      else
        (let (i, w1) = uuidv4 P w; fullTestCase = testCase\<lparr>tc_id := i\<rparr>; r = nextRef w1
         in (r, w1\<lparr>heap := (heap w1)(r := fullTestCase), nextRef := Suc r,
                   storedTestCases := (storedTestCases w1)(i \<mapsto> r)\<rparr>)))"

definition getTestCase :: "'x world \<Rightarrow> string \<Rightarrow> nat option" where
  "getTestCase w testCaseId' = storedTestCases w testCaseId'"

definition storeTestResult :: "TestResult \<Rightarrow> 'x world \<Rightarrow> TestResult \<times> 'x world" where
  "storeTestResult result w =
     (let fullResult = result
      in (fullResult,
          w\<lparr>storedTestResults := (storedTestResults w)(testCaseId result \<mapsto> fullResult)\<rparr>))"

definition getTestResult :: "'x world \<Rightarrow> string \<Rightarrow> TestResult option" where
  "getTestResult w testCaseId' = storedTestResults w testCaseId'"

text \<open>\<open>results.forEach(result => testCaseStore.storeTestResult(result))\<close>\<close>

fun storeTestResults :: "TestResult list \<Rightarrow> 'x world \<Rightarrow> 'x world" where
  "storeTestResults [] w = w"
| "storeTestResults (r # rs) w = storeTestResults rs (snd (storeTestResult r w))"

section \<open>BugFixStore (src/data/bugFixStore.ts)\<close>

text \<open>
  \<open>storeBugFix\<close> takes a fix without \<open>id\<close>, \<open>applied\<close> and \<open>validated\<close>
  and sets the three. The object it returns is the stored one, so what
  \<open>markAsApplied\<close> writes later shows in it: where the fix agent returns that
  object after \<open>markAsApplied\<close> found it, the model returns it with
  \<open>applied\<close> set.
\<close>

definition storeBugFix :: "'x prims \<Rightarrow> BugFix \<Rightarrow> 'x world \<Rightarrow> BugFix \<times> 'x world" where
  "storeBugFix P bugFix w =
     (let (i, w1) = uuidv4 P w;
          fullBugFix = bugFix\<lparr>bf_id := i, applied := False, validated := False\<rparr>
      in (fullBugFix, w1\<lparr>storedBugFixes := (storedBugFixes w1)(i \<mapsto> fullBugFix)\<rparr>))"

definition getBugFix :: "'x world \<Rightarrow> string \<Rightarrow> BugFix option" where
  "getBugFix w bugFixId = storedBugFixes w bugFixId"

definition markAsApplied :: "string \<Rightarrow> 'x world \<Rightarrow> bool \<times> 'x world" where
  "markAsApplied bugFixId w =
     (case storedBugFixes w bugFixId of
        None \<Rightarrow> (False, w)
      | Some entry \<Rightarrow>
          (True, w\<lparr>storedBugFixes := (storedBugFixes w)(bugFixId \<mapsto> entry\<lparr>applied := True\<rparr>)\<rparr>))"

definition markAsValidated :: "string \<Rightarrow> bool \<Rightarrow> 'x world \<Rightarrow> bool \<times> 'x world" where
  "markAsValidated bugFixId v w =
     (case storedBugFixes w bugFixId of
        None \<Rightarrow> (False, w)
      | Some entry \<Rightarrow>
          (True, w\<lparr>storedBugFixes := (storedBugFixes w)(bugFixId \<mapsto> entry\<lparr>validated := v\<rparr>)\<rparr>))"

section \<open>The fix agent (src/agents/autoFixAgent.ts)\<close>

text \<open>How a template literal prints an optional text.\<close>

definition showOptional :: "string option \<Rightarrow> string" where
  "showOptional t = (case t of None \<Rightarrow> ''undefined'' | Some s \<Rightarrow> s)"

text \<open>
  \<open>fixTestCase\<close> asks the generation service for a corrected test, cleans the
  reply, assigns it to \<open>testCase.code\<close> (\<open>testCase\<close> is the object at
  reference \<open>r\<close>) and stores the test case again. It does not read
  \<open>applyImmediately\<close>.
\<close>

definition fixTestCase ::
  "'x prims \<Rightarrow> nat \<Rightarrow> TestResult \<Rightarrow> string \<Rightarrow> bool \<Rightarrow> 'x world \<Rightarrow> (Thrown + unit) \<times> 'x world"
  where
  "fixTestCase P r testResult sourceCode applyImmediately w =
     (case initAzureChatModel P w of
        (Inl e, w1) \<Rightarrow> (Inl e, w1)
      | (Inr model, w1) \<Rightarrow>
          (case invoke P (FixTestPrompt (heap w1 r) testResult sourceCode) w1 of
             (Inl e, w2) \<Rightarrow> (Inl e, w2)
           | (Inr response, w2) \<Rightarrow>
               (let fixedTestCode = cleanMarkdown (contentText response);
                    w3 = w2\<lparr>heap := (heap w2)(r := (heap w2 r)\<lparr>tc_code := fixedTestCode\<rparr>)\<rparr>;
                    (stored, w4) = storeTestCase P (heap w3 r) w3
                in (Inr (), w4))))"

text \<open>The verdict of the service, and the error patterns that overrule it.\<close>

definition analysisOf :: "Content \<Rightarrow> string" where
  "analysisOf c = (case c of Text s \<Rightarrow> toUpperCase (trim s) | Structured j \<Rightarrow> j)"

definition shouldFixTest :: "string \<Rightarrow> string \<Rightarrow> bool" where
  "shouldFixTest analysis errorLower \<longleftrightarrow>
     includes_str analysis ''TEST'' \<or>
     includes_str errorLower ''import'' \<or>
     includes_str errorLower ''cannot find'' \<or>
     includes_str errorLower ''is not defined'' \<or>
     includes_str errorLower ''typeerror'' \<or>
     includes_str errorLower ''referenceerror'' \<or>
     includes_str errorLower ''compilation failed'' \<or>
     includes_str errorLower ''cannot be resolved'' \<or>
     (includes_str errorLower ''package'' \<and> includes_str errorLower ''does not exist'') \<or>
     (includes_str errorLower ''symbol'' \<and> includes_str errorLower ''cannot find'') \<or>
     (includes_str errorLower ''class'' \<and> includes_str errorLower ''cannot be resolved'') \<or>
     includes_str errorLower ''no such method'' \<or>
     includes_str errorLower ''method not found''"

text \<open>The branch that fixes the test (\<open>if (shouldFixTest) { ... }\<close>).\<close>

definition fixTestBranch ::
  "'x prims \<Rightarrow> nat \<Rightarrow> TestResult \<Rightarrow> string \<Rightarrow> string \<Rightarrow> bool \<Rightarrow> 'x world
     \<Rightarrow> (Thrown + BugFix) \<times> 'x world" where
  "fixTestBranch P r testResult sourceCode testCode applyImmediately w =
     (case fixTestCase P r testResult sourceCode applyImmediately w of
        (Inl e, w1) \<Rightarrow> (Inl e, w1)
      | (Inr u, w1) \<Rightarrow>
          (let testCase = heap w1 r;
               (bugFix, w2) = storeBugFix P
                 \<lparr>bf_id = [], bf_testCaseId = tc_id testCase,
                  bf_testResultId = testCaseId testResult,
                  bf_description = ''Fixed test case - test was incorrectly written: ''
                     @ showOptional (error testResult),
                  originalCode = testCode,
                  fixedCode = tc_code testCase,
                  bf_filePath = tc_filePath testCase,
                  lineStart = 0,
                  lineEnd = lineCount testCode,
                  applied = False, validated = False\<rparr> w1
           in if applyImmediately
              then (let (found, w3) = markAsApplied (bf_id bugFix) w2
                    in (Inr (if found then bugFix\<lparr>applied := True\<rparr> else bugFix), w3))
              else (Inr bugFix, w2)))"

text \<open>The branch that fixes the source file.\<close>

definition fixSourceBranch ::
  "'x prims \<Rightarrow> nat \<Rightarrow> TestResult \<Rightarrow> string \<Rightarrow> string \<Rightarrow> bool \<Rightarrow> 'x world
     \<Rightarrow> (Thrown + BugFix) \<times> 'x world" where
  "fixSourceBranch P r testResult sourceCode testCode applyImmediately w =
     (let testCase = heap w r in
      case invoke P (FixSourcePrompt testCase testResult sourceCode testCode) w of
        (Inl e, w1) \<Rightarrow> (Inl e, w1)
      | (Inr fixResponse, w1) \<Rightarrow>
          (let fixedCode' = cleanMarkdown (contentText fixResponse);
               (bugFix, w2) = storeBugFix P
                 \<lparr>bf_id = [], bf_testCaseId = tc_id testCase,
                  bf_testResultId = testCaseId testResult,
                  bf_description = ''Auto-fix source code: '' @ showOptional (error testResult),
                  originalCode = sourceCode,
                  fixedCode = fixedCode',
                  bf_filePath = tc_filePath testCase,
                  lineStart = 0,
                  lineEnd = lineCount sourceCode,
                  applied = False, validated = False\<rparr> w1
           in if applyImmediately
              then (case writeFile P (tc_filePath testCase) fixedCode' w2 of
                      (Inl e, w3) \<Rightarrow> (Inl e, w3)
                    | (Inr u, w3) \<Rightarrow>
                        (let (found, w4) = markAsApplied (bf_id bugFix) w3
                         in (Inr (if found then bugFix\<lparr>applied := True\<rparr> else bugFix), w4)))
              else (Inr bugFix, w2)))"

definition autoFixFailedTest ::
  "'x prims \<Rightarrow> TestResult \<Rightarrow> bool \<Rightarrow> 'x world \<Rightarrow> (Thrown + BugFix) \<times> 'x world" where
  "autoFixFailedTest P testResult applyImmediately w =
     (case getTestCase w (testCaseId testResult) of
        None \<Rightarrow> (Inl (newError ''Test case not found''), w)
      | Some r \<Rightarrow>
          (case readFile P (tc_filePath (heap w r)) w of
             (Inl e, w1) \<Rightarrow> (Inl e, w1)
           | (Inr sourceCode, w1) \<Rightarrow>
               (let testCode = tc_code (heap w1 r) in
                case initAzureChatModel P w1 of
                  (Inl e, w2) \<Rightarrow> (Inl e, w2)
                | (Inr model, w2) \<Rightarrow>
                    (case invoke P (AnalysisPrompt (heap w2 r) testResult sourceCode testCode) w2 of
                       (Inl e, w3) \<Rightarrow> (Inl e, w3)
                     | (Inr analysisResponse, w3) \<Rightarrow>
                         (let analysis = analysisOf analysisResponse;
                              errorLower = toLowerCase
                                (case error testResult of None \<Rightarrow> [] | Some e \<Rightarrow> e)
                          in if shouldFixTest analysis errorLower
                             then fixTestBranch P r testResult sourceCode testCode
                                    applyImmediately w3
                             else fixSourceBranch P r testResult sourceCode testCode
                                    applyImmediately w3)))))"

section \<open>The Jest executor (src/executors/jestExecutor.ts)\<close>

definition typeName :: "TestType \<Rightarrow> string" where
  "typeName t = (case t of junit \<Rightarrow> ''junit'' | jest \<Rightarrow> ''jest'' | cypress \<Rightarrow> ''cypress'')"

text \<open>
  The inner \<open>try\<close> of \<open>executeJestTest\<close>: whether it threw, and the values of
  \<open>passed\<close>, \<open>error\<close> and \<open>stackTrace\<close> it leaves. \<open>passed\<close> starts as true.
  With a positive \<open>numFailedTests\<close> it is set to false before
  \<open>result.testResults[0]\<close> is read, which throws when \<open>testResults\<close> is absent.
\<close>

definition readJestReport ::
  "JestReport option \<Rightarrow> bool \<times> bool \<times> string option \<times> string option" where
  "readJestReport parsed =
     (case parsed of
        None \<Rightarrow> (True, True, None, None)
      | Some result \<Rightarrow>
          if (case numFailedTests result of None \<Rightarrow> False | Some n \<Rightarrow> n > 0) then
            (case jr_testResults result of
               None \<Rightarrow> (True, False, None, None)
             | Some suites \<Rightarrow>
                 (let failedTest =
                        (case suites of
                           [] \<Rightarrow> None
                         | suite # rest \<Rightarrow>
                             (case assertionResults suite of
                                None \<Rightarrow> None
                              | Some rs \<Rightarrow> find (\<lambda>r. status r = ''failed'') rs))
                  in case failedTest of
                       None \<Rightarrow> (False, False, None, None)
                     | Some ft \<Rightarrow>
                         (False, False,
                          (case failureMessages ft of
                             None \<Rightarrow> None | Some [] \<Rightarrow> None | Some (m # ms) \<Rightarrow> Some m),
                          (case failureMessages ft of
                             None \<Rightarrow> None | Some ms \<Rightarrow> Some (joinLines ms)))))
          else (False, True, None, None))"

definition jestCommand :: "string \<Rightarrow> string" where
  "jestCommand testFilePath = ''npx jest '' @ testFilePath @ '' --json --no-coverage''"

definition thrownResult :: "string \<Rightarrow> Thrown \<Rightarrow> TestResult" where
  "thrownResult i e =
     \<lparr>testCaseId = i, passed = False, error = Some (message e), stackTrace = Some (stack e),
      tr_output = None\<rparr>"

definition jestTestFilePath :: "'x prims \<Rightarrow> TestCase \<Rightarrow> string" where
  "jestTestFilePath P testCase =
     (let testFileName = tc_name testCase @ ''.'' @ typeName (tc_type testCase) @ ''.ts''
      in p_tempPath P testFileName)"

definition executeJestTest :: "'x prims \<Rightarrow> nat \<Rightarrow> 'x world \<Rightarrow> TestResult \<times> 'x world" where
  "executeJestTest P r w =
     (let testCase = heap w r;
          testFilePath = jestTestFilePath P testCase
      in case mkdir P (p_tempDir P) w of
           (Inl e, w1) \<Rightarrow> (thrownResult (tc_id testCase) e, w1)
         | (Inr u, w1) \<Rightarrow>
        (case writeFile P testFilePath (tc_code testCase) w1 of
           (Inl e, w2) \<Rightarrow> (thrownResult (tc_id testCase) e, w2)
         | (Inr u, w2) \<Rightarrow>
        (case execAsync P (jestCommand testFilePath) 30000 w2 of
           (Inl e, w3) \<Rightarrow> (thrownResult (tc_id testCase) e, w3)
         | (Inr out, w3) \<Rightarrow>
             (let (threw, passed0, error0, stackTrace0) =
                    readJestReport (p_JSON_parse P (stdout out));
                  (passed1, error1) =
                    (if threw \<and> stderr out \<noteq> [] then (False, Some (stderr out))
                     else (passed0, error0));
                  (u, w4) = unlink P testFilePath w3
              in (\<lparr>testCaseId = tc_id testCase, passed = passed1, error = error1,
                   stackTrace = stackTrace0, tr_output = Some (stdout out)\<rparr>, w4)))))"

fun executeJestTests :: "'x prims \<Rightarrow> nat list \<Rightarrow> 'x world \<Rightarrow> TestResult list \<times> 'x world" where
  "executeJestTests P [] w = ([], w)"
| "executeJestTests P (r # rs) w =
     (let (result, w1) = executeJestTest P r w;
          (results, w2) = executeJestTests P rs w1
      in (result # results, w2))"

section \<open>The JUnit executor (src/executors/junitExecutor.ts)\<close>

text \<open>\<open>\w\<close> of a regular expression: an ASCII letter, a digit or the underscore.\<close>

definition isWordChar :: "char \<Rightarrow> bool" where
  "isWordChar c \<longleftrightarrow>
     isUpperAscii c \<or> isLowerAscii c \<or>
     (48 \<le> (of_char c :: nat) \<and> (of_char c :: nat) \<le> 57) \<or> c = CHR ''_''"

text \<open>
  \<open>s.match(/KEYWORD\s+(\w+)/)\<close> tried at the start of \<open>s\<close>: the keyword, white
  space, then the longest run of word characters, which is the capture.
\<close>

definition wordAfter :: "string \<Rightarrow> string \<Rightarrow> string option" where
  "wordAfter keyword s =
     (if take (length keyword) s = keyword then
        (let rest = drop (length keyword) s;
             after = dropWhile isSpace rest;
             name = takeWhile isWordChar after
         in if takeWhile isSpace rest \<noteq> [] \<and> name \<noteq> [] then Some name else None)
      else None)"

text \<open>The leftmost match of \<open>/class\s+(\w+)/\<close>.\<close>

fun matchClass :: "string \<Rightarrow> string option" where
  "matchClass [] = None"
| "matchClass (c # cs) =
     (case wordAfter ''class'' (c # cs) of Some n \<Rightarrow> Some n | None \<Rightarrow> matchClass cs)"

text \<open>
  The leftmost match of \<open>/public\s+class\s+(\w+)/\<close>. After \<open>public\<close> and its
  white space the text must go on with \<open>class\<close>, white space and a name.
\<close>

definition publicClassAt :: "string \<Rightarrow> string option" where
  "publicClassAt s =
     (if take 6 s = ''public'' \<and> takeWhile isSpace (drop 6 s) \<noteq> []
      then wordAfter ''class'' (dropWhile isSpace (drop 6 s))
      else None)"

fun matchPublicClass :: "string \<Rightarrow> string option" where
  "matchPublicClass [] = None"
| "matchPublicClass (c # cs) =
     (case publicClassAt (c # cs) of Some n \<Rightarrow> Some n | None \<Rightarrow> matchPublicClass cs)"

definition extractClassName :: "string \<Rightarrow> string" where
  "extractClassName code = (case matchClass code of Some n \<Rightarrow> n | None \<Rightarrow> ''TestClass'')"

text \<open>\<open>s.split('\n')\<close>\<close>

fun splitLines :: "string \<Rightarrow> string list" where
  "splitLines [] = [[]]"
| "splitLines (c # cs) =
     (if c = CHR 0x0A then [] # splitLines cs
      else (case splitLines cs of l # ls \<Rightarrow> (c # l) # ls | [] \<Rightarrow> [[c]]))"

text \<open>\<open>line.match(/^\s*at\s+\w+/)\<close>\<close>

definition matchStackLine :: "string \<Rightarrow> bool" where
  "matchStackLine line \<longleftrightarrow>
     (let s = dropWhile isSpace line; rest = drop 2 s
      in take 2 s = ''at'' \<and> takeWhile isSpace rest \<noteq> []
         \<and> takeWhile isWordChar (dropWhile isSpace rest) \<noteq> [])"

definition isErrorLine :: "string \<Rightarrow> bool" where
  "isErrorLine line \<longleftrightarrow>
     includes_str line ''expected'' \<or>
     includes_str line ''actual'' \<or>
     includes_str line ''AssertionError'' \<or>
     includes_str line ''Exception'' \<or>
     includes_str line ''Error:'' \<or>
     includes_str line ''cannot find symbol'' \<or>
     (includes_str line ''package'' \<and> includes_str line ''does not exist'') \<or>
     (includes_str line ''class'' \<and> includes_str line ''cannot be resolved'') \<or>
     includes_str line ''compilation failed'' \<or>
     includes_str line ''FAILED'' \<or>
     matchStackLine line"

text \<open>
  The loop of \<open>extractErrorMessage\<close> over the lines from index \<open>i\<close> on: an
  error line is kept, followed by those of the next three lines that are not
  blank.
\<close>

fun collectErrorLines :: "string list \<Rightarrow> string list" where
  "collectErrorLines [] = []"
| "collectErrorLines (line # rest) =
     (if isErrorLine line
      then line # filter (\<lambda>l. trim l \<noteq> []) (take 3 rest) @ collectErrorLines rest
      else collectErrorLines rest)"

definition extractErrorMessage :: "string \<Rightarrow> string" where
  "extractErrorMessage output' =
     (let lines = splitLines output'; errorLines = collectErrorLines lines
      in if length errorLines > 0 then joinLines (take 20 errorLines)
         else (let tail = joinLines (drop (length lines - 30) lines)
               in if tail \<noteq> [] then tail
                  else ''Test execution failed - see output for details''))"

text \<open>\<open>outputText.match(/Exception.*X/)\<close> for the tick \<open>X\<close>: \<open>.\<close> stops at a line end.\<close>

definition isLineEnd :: "char \<Rightarrow> bool" where
  "isLineEnd c \<longleftrightarrow> c = CHR 0x0A \<or> c = CHR 0x0D"

fun matchExceptionTick :: "char \<Rightarrow> string \<Rightarrow> bool" where
  "matchExceptionTick tick [] = False"
| "matchExceptionTick tick (c # cs) =
     ((take 9 (c # cs) = ''Exception''
         \<and> tick \<in> set (takeWhile (\<lambda>d. \<not> isLineEnd d) (drop 9 (c # cs))))
      \<or> matchExceptionTick tick cs)"

text \<open>\<open>outputText.match(/test\w+\(\)/i)\<close>\<close>

fun matchTestMethod :: "string \<Rightarrow> bool" where
  "matchTestMethod [] = False"
| "matchTestMethod (c # cs) =
     ((toLowerCase (take 4 (c # cs)) = ''test''
         \<and> takeWhile isWordChar (drop 4 (c # cs)) \<noteq> []
         \<and> take 2 (dropWhile isWordChar (drop 4 (c # cs))) = ''()'')
      \<or> matchTestMethod cs)"

definition countOf :: "char \<Rightarrow> string \<Rightarrow> nat" where
  "countOf c s = length (filter (\<lambda>d. d = c) s)"

text \<open>How the console output of the JUnit launcher is read: \<open>passed\<close>.\<close>

definition junitPassed :: "char \<Rightarrow> char \<Rightarrow> string \<Rightarrow> bool" where
  "junitPassed tick cross outputText =
     (let successCount = countOf tick outputText;
          failureCount = countOf cross outputText;
          hasExplicitFailures =
            (includes_str outputText ''FAILED'' \<or>
             cross \<in> set outputText \<or>
             includes_str outputText ''AssertionError'' \<or>
             includes_str outputText ''AssertionFailedError'' \<or>
             (includes_str outputText ''Exception'' \<and> \<not> matchExceptionTick tick outputText));
          hasSuccessIndicators =
            (includes_str outputText ''SUCCESS'' \<or>
             includes_str (toLowerCase outputText) ''test run finished'' \<or>
             includes_str (toLowerCase outputText) ''test successful'' \<or>
             includes_str (toLowerCase outputText) ''tests successful'' \<or>
             (successCount > 0 \<and> failureCount = 0))
      in if failureCount > 0 \<or> hasExplicitFailures then False
         else if successCount > 0 \<and> failureCount = 0 then True
         else if hasSuccessIndicators \<and> \<not> hasExplicitFailures then True
         else matchTestMethod outputText \<and> \<not> hasExplicitFailures)"

text \<open>\<open>a || b || c\<close> on strings: the first that is not empty, else the last.\<close>

definition orElse :: "string \<Rightarrow> string \<Rightarrow> string" where
  "orElse a b = (if a \<noteq> [] then a else b)"

text \<open>
  The start of \<open>executeJUnitTest\<close>, up to the list of files to compile. The copy
  of the source file sits in a \<open>try\<close> of its own that swallows every error;
  \<open>sourceFileName\<close> is assigned before the copy is written, so it is set even
  when that write fails. \<open>sourceClass\<close> is the class name found in the source
  (\<open>sourceFileName\<close> is that name with \<open>.java\<close>, or empty).
\<close>

record JUnitPrep =
  className :: string
  testFilePath :: string
  sourceClass :: "string option"

definition copySource :: "'x prims \<Rightarrow> string \<Rightarrow> 'x world \<Rightarrow> string option \<times> 'x world" where
  "copySource P sourceFilePath w =
     (case readFile P sourceFilePath w of
        (Inl e, w1) \<Rightarrow> (None, w1)
      | (Inr sourceContent, w1) \<Rightarrow>
          (case matchPublicClass sourceContent of
             None \<Rightarrow> (None, w1)
           | Some n \<Rightarrow>
               (let (res, w2) = writeFile P (p_tempPath P (n @ ''.java'')) sourceContent w1
                in (Some n, w2))))"

definition prepareJUnit ::
  "'x prims \<Rightarrow> nat \<Rightarrow> 'x world \<Rightarrow> (Thrown + JUnitPrep) \<times> 'x world" where
  "prepareJUnit P r w =
     (let testCase = heap w r;
          name = extractClassName (tc_code testCase);
          path = p_tempPath P (name @ ''.java'')
      in case mkdir P (p_tempDir P) w of
           (Inl e, w1) \<Rightarrow> (Inl e, w1)
         | (Inr u, w1) \<Rightarrow>
        (case writeFile P path (tc_code testCase) w1 of
           (Inl e, w2) \<Rightarrow> (Inl e, w2)
         | (Inr u, w2) \<Rightarrow>
             (let (src, w3) = copySource P (tc_filePath testCase) w2
              in (Inr \<lparr>className = name, testFilePath = path, sourceClass = src\<rparr>, w3))))"

definition filesToCompile :: "'x prims \<Rightarrow> JUnitPrep \<Rightarrow> string" where
  "filesToCompile P prep =
     (case sourceClass prep of
        Some n \<Rightarrow> p_tempPath P (n @ ''.java'') @ '' '' @ testFilePath prep
      | None \<Rightarrow> testFilePath prep)"

definition compileCommand :: "'x prims \<Rightarrow> string \<Rightarrow> JUnitPrep \<Rightarrow> string" where
  "compileCommand P junitJar prep =
     ''javac -cp '' @ [CHR 0x22] @ junitJar @ '':'' @ p_tempDir P @ [CHR 0x22] @ '' ''
       @ filesToCompile P prep"

definition runCommand :: "'x prims \<Rightarrow> string \<Rightarrow> JUnitPrep \<Rightarrow> string" where
  "runCommand P junitJar prep =
     ''java -jar '' @ junitJar @ '' --class-path '' @ p_tempDir P @ '' --select-class ''
       @ className prep"

definition jarMissingResult :: "string \<Rightarrow> TestResult" where
  "jarMissingResult i =
     \<lparr>testCaseId = i, passed = False,
      error = Some (''JUnit jar not found and could not be downloaded. ''
        @ ''Please download junit-platform-console-standalone.jar and place it in the project root.''),
      stackTrace = Some (''JUnit dependencies are required for Java test execution. Download from: ''
        @ ''https://repo1.maven.org/maven2/org/junit/platform/junit-platform-console-standalone/''
        @ ''1.10.0/junit-platform-console-standalone-1.10.0.jar''),
      tr_output = None\<rparr>"

text \<open>The result returned from the \<open>catch\<close> of the compile step.\<close>

definition compileFailedResult :: "string \<Rightarrow> Thrown \<Rightarrow> TestResult" where
  "compileFailedResult i compileErr =
     (let compileError =
            orElse (thrown_stderr compileErr) (orElse (thrown_stdout compileErr) (message compileErr))
      in \<lparr>testCaseId = i, passed = False,
          error = Some (''Compilation failed: '' @ compileError),
          stackTrace = Some (orElse (stack compileErr) compileError),
          tr_output = Some (thrown_stdout compileErr)\<rparr>)"

text \<open>Reading the output of the run, the clean-up and the result.\<close>

definition finishJUnit ::
  "'x prims \<Rightarrow> JUnitPrep \<Rightarrow> string \<Rightarrow> string \<Rightarrow> string \<Rightarrow> 'x world \<Rightarrow> TestResult \<times> 'x world"
  where
  "finishJUnit P prep i stdout' stderr' w =
     (let outputText = stdout' @ stderr';
          passed' = junitPassed (p_tick P) (p_cross P) outputText;
          error0 = extractErrorMessage outputText;
          error' = (if passed' then None
                    else if error0 = [] \<or> length error0 < 20
                      then Some (orElse stderr' (orElse stdout' ''Test execution failed''))
                    else Some error0);
          stackTrace' = (if passed' then None else Some outputText);
          (u1, w1) = unlink P (testFilePath prep) w;
          (u2, w2) = unlink P (p_tempPath P (className prep @ ''.class'')) w1;
          w4 = (case sourceClass prep of
                  None \<Rightarrow> w2
                | Some n \<Rightarrow>
                    (let (u3, w3) = unlink P (p_tempPath P (n @ ''.java'')) w2
                     in snd (unlink P (p_tempPath P (n @ ''.class'')) w3)))
      in (\<lparr>testCaseId = i, passed = passed', error = error', stackTrace = stackTrace',
           tr_output = Some stdout'\<rparr>, w4))"

definition runJUnit ::
  "'x prims \<Rightarrow> JUnitPrep \<Rightarrow> string \<Rightarrow> string \<Rightarrow> 'x world \<Rightarrow> TestResult \<times> 'x world" where
  "runJUnit P prep junitJar i w =
     (case execAsync P (runCommand P junitJar prep) 30000 w of
        (Inr result, w1) \<Rightarrow> finishJUnit P prep i (stdout result) (stderr result) w1
      | (Inl execError, w1) \<Rightarrow>
          (let stdout' = thrown_stdout execError;
               stderr' = orElse (thrown_stderr execError) (message execError)
           in if stdout' = [] \<and> stderr' = [] then
                (\<lparr>testCaseId = i, passed = False,
                  error = Some (''Test execution failed: '' @ message execError),
                  stackTrace = Some (orElse (stack execError) stderr'),
                  tr_output = Some stdout'\<rparr>, w1)
              else finishJUnit P prep i stdout' stderr' w1))"

definition executeJUnitTest :: "'x prims \<Rightarrow> nat \<Rightarrow> 'x world \<Rightarrow> TestResult \<times> 'x world" where
  "executeJUnitTest P r w =
     (let i = tc_id (heap w r) in
      case prepareJUnit P r w of
        (Inl e, w1) \<Rightarrow> (thrownResult i e, w1)
      | (Inr prep, w1) \<Rightarrow>
          (case ensureJUnitJar P w1 of
             (None, w2) \<Rightarrow> (jarMissingResult i, w2)
           | (Some junitJar, w2) \<Rightarrow>
               if junitJar = [] then (jarMissingResult i, w2)
               else
                 (case execAsync P (compileCommand P junitJar prep) 15000 w2 of
                    (Inl compileErr, w3) \<Rightarrow> (compileFailedResult i compileErr, w3)
                  | (Inr done, w3) \<Rightarrow> runJUnit P prep junitJar i w3)))"

fun executeJUnitTests :: "'x prims \<Rightarrow> nat list \<Rightarrow> 'x world \<Rightarrow> TestResult list \<times> 'x world" where
  "executeJUnitTests P [] w = ([], w)"
| "executeJUnitTests P (r # rs) w =
     (let (result, w1) = executeJUnitTest P r w;
          (results, w2) = executeJUnitTests P rs w1
      in (result # results, w2))"

section \<open>Test generation (src/agents/testGeneratorAgent.ts)\<close>

text \<open>
  \<open>generateTestsForFile\<close>: the drafts of the generator (their \<open>id\<close> is empty)
  are stored one by one, and the stored objects are returned.
\<close>

fun storeTestCases :: "'x prims \<Rightarrow> TestCase list \<Rightarrow> 'x world \<Rightarrow> nat list \<times> 'x world" where
  "storeTestCases P [] w = ([], w)"
| "storeTestCases P (tc # tcs) w =
     (let (r, w1) = storeTestCase P tc w;
          (rs, w2) = storeTestCases P tcs w1
      in (r # rs, w2))"

definition generateTestsForFile ::
  "'x prims \<Rightarrow> string \<Rightarrow> TestType \<Rightarrow> Requirement list option \<Rightarrow> 'x world
     \<Rightarrow> (Thrown + nat list) \<times> 'x world" where
  "generateTestsForFile P path t reqs w =
     (case outside (p_generateDrafts P path t reqs) w of
        (Inl e, w1) \<Rightarrow> (Inl e, w1)
      | (Inr drafts, w1) \<Rightarrow> (let (storedTests, w2) = storeTestCases P drafts w1
                              in (Inr storedTests, w2)))"

section \<open>The closed-loop workflow (src/workflows/closedLoopWorkflow.ts)\<close>

text \<open>
  The functions the workflow imports from other modules of the repository. Each
  may change the world and may throw.
\<close>

record 'x collaborators =
  imp_generateTestsForFile ::
    "string \<Rightarrow> TestType \<Rightarrow> Requirement list option \<Rightarrow> 'x world \<Rightarrow> (Thrown + nat list) \<times> 'x world"
  imp_executeJestTests :: "nat list \<Rightarrow> 'x world \<Rightarrow> (Thrown + TestResult list) \<times> 'x world"
  imp_executeJUnitTests :: "nat list \<Rightarrow> 'x world \<Rightarrow> (Thrown + TestResult list) \<times> 'x world"
  imp_autoFixFailedTest :: "TestResult \<Rightarrow> bool \<Rightarrow> 'x world \<Rightarrow> (Thrown + BugFix) \<times> 'x world"

text \<open>The imports as this repository defines them. The two executors never throw.\<close>

definition repoImports :: "'x prims \<Rightarrow> 'x collaborators" where
  "repoImports P =
     \<lparr>imp_generateTestsForFile = generateTestsForFile P,
      imp_executeJestTests = (\<lambda>cases w. let (rs, w1) = executeJestTests P cases w in (Inr rs, w1)),
      imp_executeJUnitTests = (\<lambda>cases w. let (rs, w1) = executeJUnitTests P cases w in (Inr rs, w1)),
      imp_autoFixFailedTest = autoFixFailedTest P\<rparr>"

text \<open>
  The argument of \<open>runClosedLoopWorkflow\<close>: the old positional signature or an
  options object. An option that is absent, \<open>undefined\<close> or \<open>null\<close> is
  \<open>None\<close>. For \<open>enableAbly\<close> the two differ: the object is spread over
  the defaults, so an absent key leaves the default \<open>true\<close> in place, while a
  key that is present with \<open>undefined\<close> or \<open>null\<close> replaces it and
  \<open>options.enableAbly ?? false\<close> then gives \<open>false\<close>. So \<open>None\<close> is the
  absent key there, \<open>Some None\<close> the key without a value. For every other
  option the default of the spread and the default of \<open>??\<close> or \<open>||\<close> agree.
  \<open>fresh\<close> stands for the workflow id the program makes up from the clock and
  a random number.
\<close>

record WorkflowOptions =
  filePath :: string
  testType :: TestType
  requirements :: "Requirement list option"
  autoApplyFixes :: "bool option"
  maxRetries :: "int option"
  workflowId :: "string option"
  projectId :: "string option"
  userId :: "string option"
  channelName :: "string option"
  enableAbly :: "bool option option"

datatype WorkflowArgs =
    Positional string "TestType option" "Requirement list option" "bool option" "int option"
  | Options WorkflowOptions

text \<open>The constants the function extracts from its options.\<close>

record Config =
  cfg_filePath :: string
  finalTestType :: TestType
  finalRequirements :: "Requirement list option"
  finalAutoApplyFixes :: bool
  finalMaxRetries :: int
  cfg_workflowId :: string
  cfg_enableAbly :: bool
  channel :: "string option"

definition truthy :: "string option \<Rightarrow> bool" where
  "truthy t = (case t of None \<Rightarrow> False | Some s \<Rightarrow> s \<noteq> [])"

definition getWorkflowChannel :: "string \<Rightarrow> string" where
  "getWorkflowChannel wid = ''workflow:'' @ wid"

definition resolveOptions :: "string \<Rightarrow> WorkflowArgs \<Rightarrow> Config" where
  "resolveOptions fresh args =
     (case args of
        Positional path t reqs auto retries \<Rightarrow>
          \<lparr>cfg_filePath = path,
           finalTestType = (case t of None \<Rightarrow> jest | Some t' \<Rightarrow> t'),
           finalRequirements = reqs,
           finalAutoApplyFixes = (case auto of None \<Rightarrow> False | Some b \<Rightarrow> b),
           finalMaxRetries = (case retries of None \<Rightarrow> 3 | Some n \<Rightarrow> n),
           cfg_workflowId = fresh,
           cfg_enableAbly = False,
           channel = None\<rparr>
      | Options opts \<Rightarrow>
          (let wid = (case workflowId opts of
                        None \<Rightarrow> fresh
                      | Some i \<Rightarrow> if i \<noteq> [] then i else fresh);
               ably = (case enableAbly opts of
                         None \<Rightarrow> True
                       | Some None \<Rightarrow> False
                       | Some (Some b) \<Rightarrow> b)
           in \<lparr>cfg_filePath = filePath opts,
               finalTestType = testType opts,
               finalRequirements = requirements opts,
               finalAutoApplyFixes = (case autoApplyFixes opts of None \<Rightarrow> False | Some b \<Rightarrow> b),
               finalMaxRetries = (case maxRetries opts of None \<Rightarrow> 3 | Some n \<Rightarrow> n),
               cfg_workflowId = wid,
               cfg_enableAbly = ably,
               channel = (if truthy (channelName opts) then channelName opts
                          else if ably then Some (getWorkflowChannel wid) else None)\<rparr>))"

text \<open>
  What a run carries along: the \<open>WorkflowState\<close> it builds, the lines it has
  printed, the events it has handed to \<open>ablyService.publishEvent\<close> (which
  never throws: it skips the event when the connection is not ready and catches
  a failed publish), and the world.
\<close>

record 'x run =
  state :: WorkflowState
  console :: "ConsoleLine list"
  published :: "(string \<times> WorkflowEvent) list"
  world :: "'x world"

definition consoleLog :: "ConsoleLine \<Rightarrow> 'x run \<Rightarrow> 'x run" where
  "consoleLog line R = R\<lparr>console := console R @ [line]\<rparr>"

text \<open>\<open>if (enableAbly && channel) { await ablyService.publishEvent(channel, ...) }\<close>\<close>

definition emit :: "Config \<Rightarrow> WorkflowEvent \<Rightarrow> 'x run \<Rightarrow> 'x run" where
  "emit cfg ev R =
     (case channel cfg of
        None \<Rightarrow> R
      | Some c \<Rightarrow> if cfg_enableAbly cfg \<and> c \<noteq> []
                  then R\<lparr>published := published R @ [(c, ev)]\<rparr> else R)"

definition setStage :: "Stage \<Rightarrow> 'x run \<Rightarrow> 'x run" where
  "setStage st R = R\<lparr>state := (state R)\<lparr>stage := st\<rparr>\<rparr>"

definition failedOf :: "TestResult list \<Rightarrow> TestResult list" where
  "failedOf rs = filter (\<lambda>r. \<not> passed r) rs"

definition passedOf :: "TestResult list \<Rightarrow> TestResult list" where
  "passedOf rs = filter (\<lambda>r. passed r) rs"

definition executeTests ::
  "'x collaborators \<Rightarrow> Config \<Rightarrow> nat list \<Rightarrow> 'x world \<Rightarrow> (Thrown + TestResult list) \<times> 'x world" where
  "executeTests I cfg cases w =
     (if finalTestType cfg = jest then imp_executeJestTests I cases w
      else imp_executeJUnitTests I cases w)"

text \<open>\<open>xs.findIndex(p)\<close>, with \<open>None\<close> for \<open>-1\<close>.\<close>

fun findIndex :: "('a \<Rightarrow> bool) \<Rightarrow> 'a list \<Rightarrow> nat option" where
  "findIndex p [] = None"
| "findIndex p (x # xs) =
     (if p x then Some 0 else (case findIndex p xs of None \<Rightarrow> None | Some i \<Rightarrow> Some (Suc i)))"

text \<open>
  One round of \<open>for (const failedResult of failedResults)\<close>: the body of the
  \<open>try\<close> and its \<open>catch\<close>. Only \<open>autoFixFailedTest\<close> can throw in it.
\<close>

definition fixOne :: "'x collaborators \<Rightarrow> Config \<Rightarrow> TestResult \<Rightarrow> 'x run \<Rightarrow> 'x run" where
  "fixOne I cfg failedResult R =
     (let testCaseName =
            (case getTestCase (world R) (testCaseId failedResult) of
               None \<Rightarrow> None | Some tc \<Rightarrow> Some (tc_name (heap (world R) tc)));
          R1 = consoleLog (LogFixing testCaseName) R;
          R2 = (case error failedResult of
                  None \<Rightarrow> R1
                | Some e \<Rightarrow> if e \<noteq> []
                            then consoleLog (LogErrorPreview (take 200 e) (length e > 200)) R1
                            else R1)
      in case imp_autoFixFailedTest I failedResult (finalAutoApplyFixes cfg) (world R2) of
           (Inl err, w3) \<Rightarrow>
             (let R3 = consoleLog (LogFixFailed (message err)) (R2\<lparr>world := w3\<rparr>)
              in R3\<lparr>state := (state R3)\<lparr>errors := errors (state R3) @ [message err]\<rparr>\<rparr>)
         | (Inr bugFix, w3) \<Rightarrow>
             (let R3 = R2\<lparr>world := w3,
                         state := (state R2)\<lparr>bugFixes := bugFixes (state R2) @ [bugFix]\<rparr>\<rparr>;
                  R4 = consoleLog (LogFixGenerated (bf_id bugFix)) R3;
                  fixType = (if includes_str (bf_description bugFix) ''test''
                             then ''TEST'' else ''SOURCE'');
                  R5 = consoleLog (LogFixType fixType) R4;
                  R6 = emit cfg (workflow_fix_generated (bf_id bugFix) fixType) R5
              in if finalAutoApplyFixes cfg then
                   (let R7 = consoleLog LogFixApplied R6
                    in case getTestCase (world R7) (testCaseId failedResult) of
                         None \<Rightarrow> R7
                       | Some updatedTestCase \<Rightarrow>
                           (case findIndex
                                   (\<lambda>tc. tc_id (heap (world R7) tc) = testCaseId failedResult)
                                   (testCases (state R7)) of
                              None \<Rightarrow> R7
                            | Some index \<Rightarrow>
                                consoleLog LogTestCaseUpdated
                                  (R7\<lparr>state := (state R7)\<lparr>testCases :=
                                         (testCases (state R7))[index := updatedTestCase]\<rparr>\<rparr>)))
                 else R6))"

fun fixPass :: "'x collaborators \<Rightarrow> Config \<Rightarrow> TestResult list \<Rightarrow> 'x run \<Rightarrow> 'x run" where
  "fixPass I cfg [] R = R"
| "fixPass I cfg (failedResult # rest) R = fixPass I cfg rest (fixOne I cfg failedResult R)"

text \<open>
  How one round of the \<open>while\<close> loop ends: with the failing results for the next
  round, by \<open>break\<close>, by \<open>return state\<close>, or by an error thrown out of the loop.
\<close>

datatype 'x LoopStep =
    Continue "TestResult list" "'x run"
  | Break "'x run"
  | Return "'x run"
  | Throw Thrown "'x run"

text \<open>
  The body of the \<open>while\<close> loop, in its straight-line pieces: the sweep over
  the failing results, behind the \<open>Fix attempt\<close> line and its progress event;
  the entry of stage 4; what follows a successful re-execution up to the count of
  failures; the end when nothing fails any more.
\<close>

definition sweep ::
  "'x collaborators \<Rightarrow> Config \<Rightarrow> int \<Rightarrow> TestResult list \<Rightarrow> 'x run \<Rightarrow> 'x run" where
  "sweep I cfg retryCount failedResults R =
     fixPass I cfg failedResults
       (emit cfg (workflow_progress (retryCount + 1) (length failedResults))
          (consoleLog (LogFixAttempt (retryCount + 1) (finalMaxRetries cfg)) R))"

definition enterValidating :: "Config \<Rightarrow> 'x run \<Rightarrow> 'x run" where
  "enterValidating cfg R3 =
     emit cfg (workflow_stage_changed validating)
       (setStage validating (consoleLog LogStage4 R3))"

definition recordRetest :: "Config \<Rightarrow> TestResult list \<Rightarrow> 'x world \<Rightarrow> 'x run \<Rightarrow> 'x run" where
  "recordRetest cfg retestResults w7 R6 =
     (let R8 = R6\<lparr>world := storeTestResults retestResults w7,
                 state := (state R6)\<lparr>testResults := retestResults\<rparr>\<rparr>;
          newPassedCount = length (passedOf retestResults);
          newFailedCount = length (failedOf retestResults);
          R9 = consoleLog (LogFailed newFailedCount)
                 (consoleLog (LogPassed newPassedCount) (consoleLog LogRetestResults R8))
      in emit cfg (workflow_test_executed newPassedCount newFailedCount True) R9)"

definition finishAllFixed :: "Config \<Rightarrow> 'x run \<Rightarrow> 'x run" where
  "finishAllFixed cfg R10 =
     emit cfg workflow_completed (consoleLog LogAllPassingAfterFix (setStage completed R10))"

definition loopBody ::
  "'x collaborators \<Rightarrow> Config \<Rightarrow> int \<Rightarrow> TestResult list \<Rightarrow> 'x run \<Rightarrow> 'x LoopStep" where
  "loopBody I cfg retryCount failedResults R =
     (let R3 = sweep I cfg retryCount failedResults R
      in if finalAutoApplyFixes cfg then
           (let R6 = enterValidating cfg R3
            in case executeTests I cfg (testCases (state R6)) (world R6) of
                 (Inl err, w7) \<Rightarrow> Throw err (R6\<lparr>world := w7\<rparr>)
               | (Inr retestResults, w7) \<Rightarrow>
                   (let R10 = recordRetest cfg retestResults w7 R6
                    in if length (failedOf retestResults) = 0 then Return (finishAllFixed cfg R10)
                       else Continue (failedOf retestResults) R10))
         else Break R3)"

function fixLoop ::
  "'x collaborators \<Rightarrow> Config \<Rightarrow> int \<Rightarrow> TestResult list \<Rightarrow> 'x run \<Rightarrow> 'x LoopStep" where
  "fixLoop I cfg retryCount failedResults R =
     (if retryCount < finalMaxRetries cfg \<and> length failedResults > 0 then
        (case loopBody I cfg retryCount failedResults R of
           Continue failedResults' R' \<Rightarrow> fixLoop I cfg (retryCount + 1) failedResults' R'
         | Break R' \<Rightarrow> Break R'
         | Return R' \<Rightarrow> Return R'
         | Throw err R' \<Rightarrow> Throw err R')
      else Break R)"
  by pat_completeness auto
termination
  by (relation "measure (\<lambda>(I, cfg, retryCount, failedResults, R).
        nat (finalMaxRetries cfg - retryCount))") auto

declare fixLoop.simps [simp del]

text \<open>The \<open>Final status\<close> block behind the loop.\<close>

definition finalStatus :: "Config \<Rightarrow> 'x run \<Rightarrow> 'x run" where
  "finalStatus cfg R =
     (if length (failedOf (testResults (state R))) > 0 then
        emit cfg workflow_failed
          (consoleLog LogReviewFixes
             (consoleLog (LogStillFailing (finalMaxRetries cfg)) (setStage failed R)))
      else emit cfg workflow_completed (setStage completed R))"

text \<open>
  The \<open>try\<close> block, in its straight-line pieces: entering stage 1; what follows
  a successful generation up to the entry of stage 2; what follows a successful
  execution pass up to the count of failures; the end when nothing failed; the
  entry of stage 3.
\<close>

definition enterGenerating :: "Config \<Rightarrow> 'x run \<Rightarrow> 'x run" where
  "enterGenerating cfg R0 =
     emit cfg (workflow_stage_changed generating)
       (setStage generating (consoleLog LogStage1 R0))"

definition recordGenerated :: "Config \<Rightarrow> nat list \<Rightarrow> 'x world \<Rightarrow> 'x run \<Rightarrow> 'x run" where
  "recordGenerated cfg cases w2 R1 =
     (let R2 = R1\<lparr>world := w2, state := (state R1)\<lparr>testCases := cases\<rparr>\<rparr>;
          R3 = emit cfg (workflow_test_generated (length cases))
                 (consoleLog (LogGenerated (length cases)) R2)
      in emit cfg (workflow_stage_changed executing)
           (setStage executing (consoleLog LogStage2 R3)))"

definition recordExecuted :: "Config \<Rightarrow> TestResult list \<Rightarrow> 'x world \<Rightarrow> 'x run \<Rightarrow> 'x run" where
  "recordExecuted cfg results w5 R4 =
     (let R5 = R4\<lparr>world := storeTestResults results w5,
                 state := (state R4)\<lparr>testResults := results\<rparr>\<rparr>;
          passedCount = length (passedOf results);
          failedCount = length (failedOf results);
          R6 = consoleLog (LogFailed failedCount) (consoleLog (LogPassed passedCount) R5)
      in emit cfg (workflow_test_executed passedCount failedCount False) R6)"

definition finishAllPassed :: "Config \<Rightarrow> 'x run \<Rightarrow> 'x run" where
  "finishAllPassed cfg R7 =
     emit cfg workflow_completed (consoleLog LogAllPassed (setStage completed R7))"

definition enterFixing :: "Config \<Rightarrow> 'x run \<Rightarrow> 'x run" where
  "enterFixing cfg R7 =
     emit cfg (workflow_stage_changed fixing) (setStage fixing (consoleLog LogStage3 R7))"

text \<open>
  The \<open>try\<close> block as a whole: \<open>Inl\<close> when an error leaves it, with the run as
  it is at that moment; \<open>Inr\<close> when it ends, by \<open>return state\<close> or at its end
  (behind both, the function returns \<open>state\<close>).
\<close>

definition tryBlock :: "'x collaborators \<Rightarrow> Config \<Rightarrow> 'x run \<Rightarrow> (Thrown \<times> 'x run) + 'x run" where
  "tryBlock I cfg R0 =
     (let R1 = enterGenerating cfg R0
      in case imp_generateTestsForFile I (cfg_filePath cfg) (finalTestType cfg)
                (finalRequirements cfg) (world R1) of
           (Inl err, w2) \<Rightarrow> Inl (err, R1\<lparr>world := w2\<rparr>)
         | (Inr cases, w2) \<Rightarrow>
             (let R4 = recordGenerated cfg cases w2 R1
              in case executeTests I cfg cases (world R4) of
                   (Inl err, w5) \<Rightarrow> Inl (err, R4\<lparr>world := w5\<rparr>)
                 | (Inr results, w5) \<Rightarrow>
                     (let R7 = recordExecuted cfg results w5 R4
                      in if length (failedOf results) = 0 then Inr (finishAllPassed cfg R7)
                         else
                           (case fixLoop I cfg 0 (failedOf results) (enterFixing cfg R7) of
                              Continue f R' \<Rightarrow> Inr (finalStatus cfg R')
                            | Break R' \<Rightarrow> Inr (finalStatus cfg R')
                            | Return R' \<Rightarrow> Inr R'
                            | Throw err R' \<Rightarrow> Inl (err, R')))))"

definition initialState :: WorkflowState where
  "initialState = \<lparr>stage = parsing, testCases = [], testResults = [], bugFixes = [], errors = []\<rparr>"

text \<open>The \<open>catch\<close> of the whole function.\<close>

definition catchBlock :: "Config \<Rightarrow> Thrown \<Rightarrow> 'x run \<Rightarrow> 'x run" where
  "catchBlock cfg err R =
     (let R1 = setStage failed R;
          R2 = R1\<lparr>state := (state R1)\<lparr>errors := errors (state R1) @ [message err]\<rparr>\<rparr>
      in emit cfg workflow_failed (consoleLog (LogWorkflowFailed (message err)) R2))"

text \<open>What happens before the \<open>try\<close> block is entered.\<close>

definition startRun :: "Config \<Rightarrow> 'x world \<Rightarrow> 'x run" where
  "startRun cfg w =
     emit cfg workflow_started
       (consoleLog (LogStarting (cfg_filePath cfg))
          \<lparr>state = initialState, console = [], published = [], world = w\<rparr>)"

text \<open>
  The whole function. It returns the final state; the model returns the run, of
  which \<open>state\<close> is that value.
\<close>

definition runClosedLoopWorkflow ::
  "'x collaborators \<Rightarrow> string \<Rightarrow> WorkflowArgs \<Rightarrow> 'x world \<Rightarrow> 'x run" where
  "runClosedLoopWorkflow I fresh args w =
     (let cfg = resolveOptions fresh args;
          R0 = startRun cfg w
      in case tryBlock I cfg R0 of
           Inr R \<Rightarrow> R
         | Inl (err, R) \<Rightarrow> catchBlock cfg err R)"

section \<open>The result store is a latest-result cache\<close>

lemma storeTestResults_append:
  "storeTestResults (rs @ [r]) w = snd (storeTestResult r (storeTestResults rs w))"
  by (induction rs arbitrary: w) simp_all

text \<open>
  C9. After any sequence of \<open>storeTestResult\<close> calls, \<open>getTestResult i\<close> is the
  last result of the sequence stored for id \<open>i\<close>; when the sequence stores
  nothing for \<open>i\<close>, what was there before is still there. So one result is kept
  for each id, the newest, and storing under one id changes no other id.
\<close>

theorem getTestResult_latest:
  "getTestResult (storeTestResults rs w) i =
     (if filter (\<lambda>r. testCaseId r = i) rs = [] then getTestResult w i
      else Some (last (filter (\<lambda>r. testCaseId r = i) rs)))"
proof (induction rs rule: rev_induct)
  case Nil
  show ?case by simp
next
  case (snoc r rs)
  show ?case
  proof (cases "testCaseId r = i")
    case True
    then show ?thesis
      by (simp add: storeTestResults_append storeTestResult_def getTestResult_def)
  next
    case False
    with snoc show ?thesis
      by (simp add: storeTestResults_append storeTestResult_def getTestResult_def)
  qed
qed

section \<open>Properties of the fix agent\<close>

text \<open>
  What \<open>storeTestCase\<close> maintains: an entry of the test-case store holds a
  reference that is in use, to an object whose id is the entry's key, and no key
  is empty.
\<close>

definition storeInvariant :: "'x world \<Rightarrow> bool" where
  "storeInvariant w \<longleftrightarrow>
     (\<forall>k r. storedTestCases w k = Some r \<longrightarrow> r < nextRef w \<and> tc_id (heap w r) = k \<and> k \<noteq> [])"

text \<open>
  The invariant holds for an empty store, and \<open>storeTestCase\<close> keeps it as long
  as the uuid library does not hand out the empty string.
\<close>

lemma storeInvariant_empty:
  "storedTestCases w = Map.empty \<Longrightarrow> storeInvariant w"
  by (simp add: storeInvariant_def)

lemma storeTestCase_invariant:
  assumes inv: "storeInvariant w"
    and uuid: "fst (p_uuidv4 P (ext w)) \<noteq> []"
  shows "storeInvariant (snd (storeTestCase P testCase w))"
proof (cases "tc_id testCase = []")
  case True
  then show ?thesis
    using inv uuid
    by (auto simp: storeInvariant_def storeTestCase_def uuidv4_def outside_def Let_def
          case_prod_beta less_Suc_eq)
next
  case False
  then show ?thesis
    using inv
    by (auto simp: storeInvariant_def storeTestCase_def Let_def less_Suc_eq)
qed

lemma outside_keeps:
  assumes "outside f w = (a, w')"
  shows "heap w' = heap w" "nextRef w' = nextRef w" "storedTestCases w' = storedTestCases w"
    "storedTestResults w' = storedTestResults w" "storedBugFixes w' = storedBugFixes w"
    "written w' = written w" "commands w' = commands w"
  using assms by (auto simp: outside_def split: prod.splits)

lemmas init_keeps = outside_keeps [OF initAzureChatModel_def [symmetric, THEN trans]]
lemmas invoke_keeps = outside_keeps [OF invoke_def [symmetric, THEN trans]]
lemmas readFile_keeps = outside_keeps [OF readFile_def [symmetric, THEN trans]]
lemmas uuidv4_keeps = outside_keeps [OF uuidv4_def [symmetric, THEN trans]]

lemma fixTestCase_result:
  assumes inv: "storeInvariant w"
    and gt: "getTestCase w k = Some r"
    and init: "initAzureChatModel P w = (Inr u, w1)"
    and reply: "invoke P (FixTestPrompt (heap w r) tr src) w1 = (Inr reply, w2)"
  shows "\<exists>w'. fixTestCase P r tr src a w = (Inr (), w')
      \<and> heap w' = (heap w)(r := (heap w r)\<lparr>tc_code := cleanMarkdown (contentText reply)\<rparr>,
                          nextRef w := (heap w r)\<lparr>tc_code := cleanMarkdown (contentText reply)\<rparr>)
      \<and> nextRef w' = Suc (nextRef w)
      \<and> storedTestCases w' = (storedTestCases w)(k \<mapsto> nextRef w)
      \<and> storedTestResults w' = storedTestResults w
      \<and> storedBugFixes w' = storedBugFixes w
      \<and> written w' = written w \<and> commands w' = commands w \<and> ext w' = ext w2"
proof -
  from inv gt have r: "r < nextRef w" and kid: "tc_id (heap w r) = k" and k: "k \<noteq> []"
    by (auto simp: storeInvariant_def getTestCase_def)
  note k1 = init_keeps [OF init]
  note k2 = invoke_keeps [OF reply]
  show ?thesis
    unfolding fixTestCase_def
    using r kid k k1 k2
    by (simp add: init reply storeTestCase_def Let_def)
qed


lemma storeInvariant_same:
  assumes "storeInvariant w" "heap w' = heap w" "nextRef w' = nextRef w"
    "storedTestCases w' = storedTestCases w"
  shows "storeInvariant w'"
  using assms by (simp add: storeInvariant_def)

definition testFixRecord :: "'x prims \<Rightarrow> TestCase \<Rightarrow> TestResult \<Rightarrow> string \<Rightarrow> bool \<Rightarrow> 'x \<Rightarrow> BugFix"
  where
  "testFixRecord P old tr new a x =
     \<lparr>bf_id = fst (p_uuidv4 P x), bf_testCaseId = tc_id old,
      bf_testResultId = testCaseId tr,
      bf_description = ''Fixed test case - test was incorrectly written: ''
         @ showOptional (error tr),
      originalCode = tc_code old, fixedCode = new, bf_filePath = tc_filePath old,
      lineStart = 0, lineEnd = lineCount (tc_code old), applied = a, validated = False\<rparr>"

lemma fixTestBranch_result:
  assumes inv: "storeInvariant w"
    and gt: "getTestCase w k = Some r"
    and init: "initAzureChatModel P w = (Inr u, w1)"
    and reply: "invoke P (FixTestPrompt (heap w r) tr src) w1 = (Inr reply, w2)"
  shows "\<exists>w'. fixTestBranch P r tr src (tc_code (heap w r)) a w =
        (Inr (testFixRecord P (heap w r) tr (cleanMarkdown (contentText reply)) a (ext w2)), w')
      \<and> heap w' = (heap w)(r := (heap w r)\<lparr>tc_code := cleanMarkdown (contentText reply)\<rparr>,
                          nextRef w := (heap w r)\<lparr>tc_code := cleanMarkdown (contentText reply)\<rparr>)
      \<and> storedTestCases w' = (storedTestCases w)(k \<mapsto> nextRef w)
      \<and> written w' = written w"
proof -
  from inv gt have kid: "tc_id (heap w r) = k"
    by (auto simp: storeInvariant_def getTestCase_def)
  from fixTestCase_result [OF inv gt init reply, where a = a]
  obtain v where v: "fixTestCase P r tr src a w = (Inr (), v)"
    and hv: "heap v = (heap w)(r := (heap w r)\<lparr>tc_code := cleanMarkdown (contentText reply)\<rparr>,
                          nextRef w := (heap w r)\<lparr>tc_code := cleanMarkdown (contentText reply)\<rparr>)"
    and sv: "storedTestCases v = (storedTestCases w)(k \<mapsto> nextRef w)"
    and wv: "written v = written w"
    and xv: "ext v = ext w2"
    by blast
  from inv gt have r: "r < nextRef w" by (auto simp: storeInvariant_def getTestCase_def)
  show ?thesis
    unfolding fixTestBranch_def
    using r kid
    by (simp add: v hv sv wv xv storeBugFix_def uuidv4_def outside_def markAsApplied_def
          testFixRecord_def Let_def case_prod_beta)
qed


lemma autoFixFailedTest_branches:
  assumes gt: "getTestCase w (testCaseId tr) = Some r"
    and rd: "readFile P (tc_filePath (heap w r)) w = (Inr src, w1)"
    and init: "initAzureChatModel P w1 = (Inr u, w2)"
    and an: "invoke P (AnalysisPrompt (heap w r) tr src (tc_code (heap w r))) w2 = (Inr verdict, w3)"
  shows "autoFixFailedTest P tr a w =
     (if shouldFixTest (analysisOf verdict) (toLowerCase (case error tr of None \<Rightarrow> [] | Some e \<Rightarrow> e))
      then fixTestBranch P r tr src (tc_code (heap w r)) a w3
      else fixSourceBranch P r tr src (tc_code (heap w r)) a w3)"
proof -
  note k1 = readFile_keeps [OF rd]
  note k2 = init_keeps [OF init]
  show ?thesis
    unfolding autoFixFailedTest_def
    using k1(1) k2(1)
    by (simp add: gt rd init an Let_def)
qed

text \<open>
  The signatures of a broken test as the specification lists them (missing or
  unresolved import or symbol, undefined reference, type error, compilation or
  resolution failure, unresolved package, class or method), as texts looked for
  in the error message without regard to letter case.
\<close>

definition testBrokenSignatures :: "string list" where
  "testBrokenSignatures =
     [''import'', ''cannot find'', ''is not defined'', ''typeerror'', ''referenceerror'',
      ''compilation failed'', ''cannot be resolved'', ''no such method'', ''method not found'']"

definition hasTestBrokenSignature :: "string \<Rightarrow> bool" where
  "hasTestBrokenSignature e \<longleftrightarrow>
     (\<exists>s \<in> set testBrokenSignatures. includes_str (toLowerCase e) s) \<or>
     (includes_str (toLowerCase e) ''package'' \<and> includes_str (toLowerCase e) ''does not exist'')"

lemma signature_forces_test_fix:
  "hasTestBrokenSignature e \<Longrightarrow> shouldFixTest analysis (toLowerCase e)"
  unfolding hasTestBrokenSignature_def testBrokenSignatures_def shouldFixTest_def
  by auto

lemma autoFixFailedTest_test_fix:
  assumes inv: "storeInvariant w"
    and gt: "getTestCase w (testCaseId tr) = Some r"
    and rd: "readFile P (tc_filePath (heap w r)) w = (Inr src, w1)"
    and init: "initAzureChatModel P w1 = (Inr u1, w2)"
    and an: "invoke P (AnalysisPrompt (heap w r) tr src (tc_code (heap w r))) w2 = (Inr verdict, w3)"
    and cls: "shouldFixTest (analysisOf verdict)
               (toLowerCase (case error tr of None \<Rightarrow> [] | Some e \<Rightarrow> e))"
    and init2: "initAzureChatModel P w3 = (Inr u2, w4)"
    and reply: "invoke P (FixTestPrompt (heap w r) tr src) w4 = (Inr reply, w5)"
  shows "\<exists>w'. autoFixFailedTest P tr a w =
        (Inr (testFixRecord P (heap w r) tr (cleanMarkdown (contentText reply)) a (ext w5)), w')
      \<and> heap w' = (heap w)(r := (heap w r)\<lparr>tc_code := cleanMarkdown (contentText reply)\<rparr>,
                          nextRef w := (heap w r)\<lparr>tc_code := cleanMarkdown (contentText reply)\<rparr>)
      \<and> storedTestCases w' = (storedTestCases w)(testCaseId tr \<mapsto> nextRef w)
      \<and> written w' = written w"
proof -
  note k1 = readFile_keeps [OF rd]
  note k2 = init_keeps [OF init]
  note k3 = invoke_keeps [OF an]
  have h3: "heap w3 = heap w" "nextRef w3 = nextRef w" "storedTestCases w3 = storedTestCases w"
    "written w3 = written w"
    using k1 k2 k3 by simp_all
  have inv3: "storeInvariant w3"
    using inv h3(1-3) by (rule storeInvariant_same)
  have gt3: "getTestCase w3 (testCaseId tr) = Some r"
    using gt h3 by (simp add: getTestCase_def)
  from inv gt have kid: "tc_id (heap w r) = testCaseId tr"
    by (auto simp: storeInvariant_def getTestCase_def)
  from fixTestBranch_result [OF inv3 gt3 init2 reply [folded h3(1)], where a = a]
  obtain w' where
    res: "fixTestBranch P r tr src (tc_code (heap w r)) a w3 =
        (Inr (testFixRecord P (heap w r) tr (cleanMarkdown (contentText reply)) a (ext w5)), w')"
    and hw: "heap w' = (heap w)(r := (heap w r)\<lparr>tc_code := cleanMarkdown (contentText reply)\<rparr>,
                          nextRef w := (heap w r)\<lparr>tc_code := cleanMarkdown (contentText reply)\<rparr>)"
    and sw: "storedTestCases w' = (storedTestCases w)(testCaseId tr \<mapsto> nextRef w)"
    and ww: "written w' = written w"
    using h3 by auto
  have run: "autoFixFailedTest P tr a w =
        (Inr (testFixRecord P (heap w r) tr (cleanMarkdown (contentText reply)) a (ext w5)), w')"
    using autoFixFailedTest_branches [OF gt rd init an, of a] cls res by simp
  show ?thesis
    using run hw sw ww by simp
qed

text \<open>
  C7. When the failure is classified as a broken test (and the service answers the
  request for a corrected test with \<open>reply\<close>), the run returns a BugFix, the
  store holds under the same id a test case that differs from the old one in its
  code only, which is the cleaned reply, and the BugFix has the path of the source
  file as \<open>filePath\<close>, the old test text as \<open>originalCode\<close> and the corrected
  test text as \<open>fixedCode\<close>. No file is written.
\<close>

theorem autoFixFailedTest_broken_test:
  assumes inv: "storeInvariant w"
    and gt: "getTestCase w (testCaseId tr) = Some r"
    and rd: "readFile P (tc_filePath (heap w r)) w = (Inr src, w1)"
    and init: "initAzureChatModel P w1 = (Inr u1, w2)"
    and an: "invoke P (AnalysisPrompt (heap w r) tr src (tc_code (heap w r))) w2 = (Inr verdict, w3)"
    and cls: "shouldFixTest (analysisOf verdict)
               (toLowerCase (case error tr of None \<Rightarrow> [] | Some e \<Rightarrow> e))"
    and init2: "initAzureChatModel P w3 = (Inr u2, w4)"
    and reply: "invoke P (FixTestPrompt (heap w r) tr src) w4 = (Inr reply, w5)"
  shows "\<exists>bf w' r'. autoFixFailedTest P tr a w = (Inr bf, w')
      \<and> getTestCase w' (testCaseId tr) = Some r'
      \<and> heap w' r' = (heap w r)\<lparr>tc_code := cleanMarkdown (contentText reply)\<rparr>
      \<and> tc_id (heap w' r') = testCaseId tr
      \<and> bf_filePath bf = tc_filePath (heap w r)
      \<and> originalCode bf = tc_code (heap w r)
      \<and> fixedCode bf = cleanMarkdown (contentText reply)
      \<and> written w' = written w"
proof -
  from inv gt have kid: "tc_id (heap w r) = testCaseId tr"
    by (auto simp: storeInvariant_def getTestCase_def)
  from autoFixFailedTest_test_fix [OF inv gt rd init an cls init2 reply, where a = a]
  show ?thesis
    using kid by (auto simp: getTestCase_def testFixRecord_def)
qed

text \<open>
  C2. When the error text of the failing result contains a known test-is-broken
  signature (in any letter case), the failure is classified as a broken test
  whatever verdict the generation service gave, the BugFix that is produced
  records the old and the corrected test text, the stored test case carries the
  corrected text, and no file is written: the source file stays as it was.
\<close>

theorem signature_overrules_verdict:
  assumes inv: "storeInvariant w"
    and gt: "getTestCase w (testCaseId tr) = Some r"
    and err: "error tr = Some e"
    and sig: "hasTestBrokenSignature e"
    and rd: "readFile P (tc_filePath (heap w r)) w = (Inr src, w1)"
    and init: "initAzureChatModel P w1 = (Inr u1, w2)"
    and an: "invoke P (AnalysisPrompt (heap w r) tr src (tc_code (heap w r))) w2 = (Inr verdict, w3)"
    and init2: "initAzureChatModel P w3 = (Inr u2, w4)"
    and reply: "invoke P (FixTestPrompt (heap w r) tr src) w4 = (Inr reply, w5)"
  shows "shouldFixTest (analysisOf verdict) (toLowerCase e)
      \<and> (\<exists>bf w' r'. autoFixFailedTest P tr a w = (Inr bf, w')
            \<and> bf_description bf = ''Fixed test case - test was incorrectly written: '' @ e
            \<and> originalCode bf = tc_code (heap w r)
            \<and> fixedCode bf = cleanMarkdown (contentText reply)
            \<and> getTestCase w' (testCaseId tr) = Some r'
            \<and> tc_code (heap w' r') = fixedCode bf
            \<and> written w' = written w)"
proof -
  have cls: "shouldFixTest (analysisOf verdict) (toLowerCase e)"
    using sig by (rule signature_forces_test_fix)
  then have cls': "shouldFixTest (analysisOf verdict)
      (toLowerCase (case error tr of None \<Rightarrow> [] | Some e \<Rightarrow> e))"
    by (simp add: err)
  from autoFixFailedTest_test_fix [OF inv gt rd init an cls' init2 reply, where a = a]
  show ?thesis
    using cls by (auto simp: getTestCase_def testFixRecord_def showOptional_def err)
qed

text \<open>A scripted outside world for concrete runs.\<close>

definition demoCase :: TestCase where
  "demoCase = \<lparr>tc_id = ''t1'', tc_name = ''addTest'', tc_description = ''Test for Calc.add'',
     tc_type = junit, tc_code = ''import foo.Calc; class CalcTest {}'',
     tc_targetFunction = ''add'', tc_filePath = ''Calc.java'', tc_requirements = None\<rparr>"

definition demoFailure :: TestResult where
  "demoFailure = \<lparr>testCaseId = ''t1'', passed = False,
     error = Some ''error: Cannot find symbol: Foo'', stackTrace = None, tr_output = None\<rparr>"

definition demoAssertion :: TestResult where
  "demoAssertion = \<lparr>testCaseId = ''t1'', passed = False,
     error = Some ''expected: <5> but was: <4>'', stackTrace = None, tr_output = None\<rparr>"

definition demoReply :: string where
  "demoReply = fence @ ''java'' @ [CHR 0x0A] @ ''class CalcTest {}'' @ [CHR 0x0A] @ fence"

definition demoPrims :: "nat prims" where
  "demoPrims = \<lparr>
     p_uuidv4 = (\<lambda>n. (CHR ''u'' # replicate n (CHR ''i''), Suc n)),
     p_initAzureChatModel = (\<lambda>n. (Inr (), n)),
     p_invoke = (\<lambda>p n. case p of
         AnalysisPrompt c t s1 s2 \<Rightarrow>
           (if error t = Some ''expected: <5> but was: <4>'' then (Inr (Text ''test''), n)
            else (Inr (Text '' source ''), n))
       | FixTestPrompt c t s1 \<Rightarrow> (Inr (Text demoReply), n)
       | FixSourcePrompt c t s1 s2 \<Rightarrow> (Inr (Text ''class Calc { }''), n)),
     p_readFile = (\<lambda>path n. if path = ''Calc.java'' then (Inr ''public class Calc {}'', n)
                             else (Inl (newError ''ENOENT''), n)),
     p_writeFile = (\<lambda>path content n. (Inr (), n)),
     p_mkdir = (\<lambda>path n. (Inr (), n)),
     p_unlink = (\<lambda>path n. (Inr (), n)),
     p_execAsync = (\<lambda>command timeout n.
         if take 8 command = ''npx jest'' then (Inr \<lparr>stdout = ''no tests found'', stderr = []\<rparr>, n)
         else if take 5 command = ''javac'' then
           (Inl \<lparr>message = ''Command failed: javac'', stack = ''Error: Command failed: javac'',
                 thrown_stdout = [],
                 thrown_stderr = ''CalcTest.java:1: error: package foo does not exist''\<rparr>, n)
         else (Inl (newError ''Command failed''), n)),
     p_ensureJUnitJar = (\<lambda>n. (Some ''junit.jar'', n)),
     p_JSON_parse = (\<lambda>s. None),
     p_tempPath = (\<lambda>name. ''temp/'' @ name),
     p_tempDir = ''temp'',
     p_tick = CHR 0x01,
     p_cross = CHR 0x02,
     p_generateDrafts = (\<lambda>path t reqs n. (Inr [demoCase\<lparr>tc_id := []\<rparr>], n))\<rparr>"

definition demoWorld :: "nat world" where
  "demoWorld = \<lparr>heap = (\<lambda>r. demoCase), nextRef = 1, storedTestCases = [''t1'' \<mapsto> 0],
     storedTestResults = Map.empty, storedBugFixes = Map.empty,
     written = [], commands = [], ext = 0\<rparr>"

lemma demoWorld_invariant: "storeInvariant demoWorld"
  by (simp add: storeInvariant_def demoWorld_def demoCase_def)

lemma demoReply_clean: "cleanMarkdown demoReply = ''class CalcTest {}''"
  by (simp add: demoReply_def fence_def cleanMarkdown_def removeFences.simps dropLang_def
        dropNewline_def trim_def isSpace_def)

lemma demoFailure_signature: "hasTestBrokenSignature ''error: Cannot find symbol: Foo''"
  by (simp add: hasTestBrokenSignature_def testBrokenSignatures_def toLowerCase_def
        toLowerCaseChar_def isUpperAscii_def)

theorem signature_overrules_verdict_witness:
  "analysisOf (Text '' source '') = ''SOURCE''
   \<and> shouldFixTest ''SOURCE'' (toLowerCase ''error: Cannot find symbol: Foo'')
   \<and> (\<exists>bf w' r'. autoFixFailedTest demoPrims demoFailure True demoWorld = (Inr bf, w')
        \<and> originalCode bf = ''import foo.Calc; class CalcTest {}''
        \<and> fixedCode bf = ''class CalcTest {}''
        \<and> getTestCase w' ''t1'' = Some r'
        \<and> tc_code (heap w' r') = ''class CalcTest {}''
        \<and> written w' = [])"
proof -
  have a: "analysisOf (Text '' source '') = ''SOURCE''"
    by (simp add: analysisOf_def trim_def isSpace_def toUpperCase_def toUpperCaseChar_def
          isLowerAscii_def)
  have gt: "getTestCase demoWorld (testCaseId demoFailure) = Some 0"
    by (simp add: getTestCase_def demoWorld_def demoFailure_def)
  have err: "error demoFailure = Some ''error: Cannot find symbol: Foo''"
    by (simp add: demoFailure_def)
  have rd: "readFile demoPrims (tc_filePath (heap demoWorld 0)) demoWorld
      = (Inr ''public class Calc {}'', demoWorld)"
    by (simp add: readFile_def outside_def demoPrims_def demoWorld_def demoCase_def)
  have init: "initAzureChatModel demoPrims demoWorld = (Inr (), demoWorld)"
    by (simp add: initAzureChatModel_def outside_def demoPrims_def demoWorld_def)
  have an: "invoke demoPrims (AnalysisPrompt (heap demoWorld 0) demoFailure ''public class Calc {}''
        (tc_code (heap demoWorld 0))) demoWorld = (Inr (Text '' source ''), demoWorld)"
    by (simp add: invoke_def outside_def demoPrims_def demoWorld_def demoFailure_def)
  have reply: "invoke demoPrims (FixTestPrompt (heap demoWorld 0) demoFailure ''public class Calc {}'')
        demoWorld = (Inr (Text demoReply), demoWorld)"
    by (simp add: invoke_def outside_def demoPrims_def demoWorld_def)
  have code: "tc_code (heap demoWorld 0) = ''import foo.Calc; class CalcTest {}''"
    by (simp add: demoWorld_def demoCase_def)
  have clean: "cleanMarkdown (contentText (Text demoReply)) = ''class CalcTest {}''"
    by (simp add: contentText_def demoReply_clean)
  have tid: "testCaseId demoFailure = ''t1''"
    by (simp add: demoFailure_def)
  have wr: "written demoWorld = []"
    by (simp add: demoWorld_def)
  from signature_overrules_verdict [OF demoWorld_invariant gt err demoFailure_signature rd init
      an init reply, where a = True]
  show ?thesis
    unfolding a code clean tid wr by auto
qed

theorem autoFixFailedTest_broken_test_witness:
  "shouldFixTest (analysisOf (Text ''test'')) (toLowerCase ''expected: <5> but was: <4>'')
   \<and> (\<exists>bf w' r'. autoFixFailedTest demoPrims demoAssertion False demoWorld = (Inr bf, w')
        \<and> getTestCase w' ''t1'' = Some r'
        \<and> heap w' r' = demoCase\<lparr>tc_code := ''class CalcTest {}''\<rparr>
        \<and> tc_id (heap w' r') = ''t1''
        \<and> bf_filePath bf = ''Calc.java''
        \<and> originalCode bf = ''import foo.Calc; class CalcTest {}''
        \<and> fixedCode bf = ''class CalcTest {}''
        \<and> written w' = [])"
proof -
  have cls: "shouldFixTest (analysisOf (Text ''test''))
      (toLowerCase ''expected: <5> but was: <4>'')"
    by (simp add: shouldFixTest_def analysisOf_def trim_def isSpace_def toUpperCase_def
          toUpperCaseChar_def isLowerAscii_def)
  have err: "(case error demoAssertion of None \<Rightarrow> [] | Some e \<Rightarrow> e)
      = ''expected: <5> but was: <4>''"
    by (simp add: demoAssertion_def)
  have gt: "getTestCase demoWorld (testCaseId demoAssertion) = Some 0"
    by (simp add: getTestCase_def demoWorld_def demoAssertion_def)
  have rd: "readFile demoPrims (tc_filePath (heap demoWorld 0)) demoWorld
      = (Inr ''public class Calc {}'', demoWorld)"
    by (simp add: readFile_def outside_def demoPrims_def demoWorld_def demoCase_def)
  have init: "initAzureChatModel demoPrims demoWorld = (Inr (), demoWorld)"
    by (simp add: initAzureChatModel_def outside_def demoPrims_def demoWorld_def)
  have an: "invoke demoPrims (AnalysisPrompt (heap demoWorld 0) demoAssertion ''public class Calc {}''
        (tc_code (heap demoWorld 0))) demoWorld = (Inr (Text ''test''), demoWorld)"
    by (simp add: invoke_def outside_def demoPrims_def demoWorld_def demoAssertion_def)
  have reply: "invoke demoPrims (FixTestPrompt (heap demoWorld 0) demoAssertion ''public class Calc {}'')
        demoWorld = (Inr (Text demoReply), demoWorld)"
    by (simp add: invoke_def outside_def demoPrims_def demoWorld_def)
  have obj: "heap demoWorld 0 = demoCase"
    by (simp add: demoWorld_def)
  have fields: "tc_code demoCase = ''import foo.Calc; class CalcTest {}''"
    "tc_filePath demoCase = ''Calc.java''"
    by (simp_all add: demoCase_def)
  have clean: "cleanMarkdown (contentText (Text demoReply)) = ''class CalcTest {}''"
    by (simp add: contentText_def demoReply_clean)
  have tid: "testCaseId demoAssertion = ''t1''"
    by (simp add: demoAssertion_def)
  have wr: "written demoWorld = []"
    by (simp add: demoWorld_def)
  from autoFixFailedTest_broken_test [OF demoWorld_invariant gt rd init an cls [folded err]
      init reply, where a = False]
  show ?thesis
    using cls unfolding obj fields clean tid wr by auto
qed

section \<open>Properties of the executors\<close>

lemmas mkdir_keeps = outside_keeps [OF mkdir_def [symmetric, THEN trans]]
lemmas unlink_keeps = outside_keeps [OF unlink_def [symmetric, THEN trans]]
lemmas ensureJUnitJar_keeps = outside_keeps [OF ensureJUnitJar_def [symmetric, THEN trans]]

lemma writeFile_commands: "writeFile P path content w = (a, w') \<Longrightarrow> commands w' = commands w"
  by (auto simp: writeFile_def outside_def split: prod.splits)

lemma execAsync_commands:
  "execAsync P command t w = (a, w') \<Longrightarrow> commands w' = commands w @ [command]"
  by (auto simp: execAsync_def outside_def split: prod.splits)

lemma copySource_commands: "copySource P path w = (a, w') \<Longrightarrow> commands w' = commands w"
  unfolding copySource_def
  by (auto split: prod.splits sum.splits option.splits)
     (metis readFile_keeps(7) writeFile_commands)+

lemma prepareJUnit_commands: "prepareJUnit P r w = (a, w') \<Longrightarrow> commands w' = commands w"
  unfolding prepareJUnit_def Let_def
  by (auto split: prod.splits sum.splits)
     (metis mkdir_keeps(7) writeFile_commands copySource_commands)+


text \<open>
  C8. When the compile step of a JUnit test case fails (the \<open>javac\<close> command
  throws), \<open>executeJUnitTest\<close> returns at once: the result has
  \<open>passed = false\<close>, its \<open>error\<close> is \<open>Compilation failed: \<close> followed by the
  compiler's diagnostic (stderr, else stdout, else the message of the error), and
  the only command started is the compile command: the test is not run.
\<close>

theorem executeJUnitTest_compile_failure:
  assumes prep: "prepareJUnit P r w = (Inr prep, w1)"
    and jar: "ensureJUnitJar P w1 = (Some junitJar, w2)" "junitJar \<noteq> []"
    and comp: "execAsync P (compileCommand P junitJar prep) 15000 w2 = (Inl compileErr, w3)"
  shows "\<exists>res. executeJUnitTest P r w = (res, w3)
      \<and> testCaseId res = tc_id (heap w r)
      \<and> passed res = False
      \<and> error res = Some (''Compilation failed: ''
           @ orElse (thrown_stderr compileErr)
               (orElse (thrown_stdout compileErr) (message compileErr)))
      \<and> commands w3 = commands w @ [compileCommand P junitJar prep]"
proof -
  have c1: "commands w1 = commands w" using prep by (rule prepareJUnit_commands)
  have c2: "commands w2 = commands w1" using jar(1) by (rule ensureJUnitJar_keeps(7))
  have c3: "commands w3 = commands w2 @ [compileCommand P junitJar prep]"
    using comp by (rule execAsync_commands)
  have run: "executeJUnitTest P r w = (compileFailedResult (tc_id (heap w r)) compileErr, w3)"
    unfolding executeJUnitTest_def by (simp add: prep jar comp)
  show ?thesis
    using run c1 c2 c3 by (simp add: compileFailedResult_def Let_def)
qed

definition positiveFailedCount :: "JestReport \<Rightarrow> bool" where
  "positiveFailedCount rep = (case numFailedTests rep of None \<Rightarrow> False | Some n \<Rightarrow> n > 0)"

lemma readJestReport_passed:
  "fst (snd (readJestReport parsed)) =
     (case parsed of None \<Rightarrow> True | Some rep \<Rightarrow> \<not> positiveFailedCount rep)"
  "fst (readJestReport parsed) \<Longrightarrow> parsed \<noteq> None \<Longrightarrow> \<not> fst (snd (readJestReport parsed))"
  by (auto simp: readJestReport_def positiveFailedCount_def Let_def
        split: option.splits list.splits if_splits)

text \<open>
  C10. When the Jest command completes without throwing, \<open>passed\<close> is false
  exactly when the parsed report has a positive count of failed tests, or the
  output cannot be parsed and stderr is not empty. In particular, output that
  cannot be parsed together with an empty stderr gives \<open>passed = true\<close> and no
  error.
\<close>

theorem executeJestTest_unparseable_passes:
  assumes mk: "mkdir P (p_tempDir P) w = (Inr u1, w1)"
    and wr: "writeFile P (jestTestFilePath P (heap w r)) (tc_code (heap w r)) w1 = (Inr u2, w2)"
    and ex: "execAsync P (jestCommand (jestTestFilePath P (heap w r))) 30000 w2 = (Inr out, w3)"
  shows "(passed (fst (executeJestTest P r w)) \<longleftrightarrow>
            (case p_JSON_parse P (stdout out) of
               None \<Rightarrow> stderr out = []
             | Some rep \<Rightarrow> \<not> positiveFailedCount rep))
      \<and> (p_JSON_parse P (stdout out) = None \<and> stderr out = [] \<longrightarrow>
            passed (fst (executeJestTest P r w))
            \<and> error (fst (executeJestTest P r w)) = None
            \<and> tr_output (fst (executeJestTest P r w)) = Some (stdout out))"
proof -
  obtain threw p0 e0 s0 where rd: "readJestReport (p_JSON_parse P (stdout out)) = (threw, p0, e0, s0)"
    by (cases "readJestReport (p_JSON_parse P (stdout out))") auto
  obtain u4 w4 where ul: "unlink P (jestTestFilePath P (heap w r)) w3 = (u4, w4)"
    by (cases "unlink P (jestTestFilePath P (heap w r)) w3") auto
  have res: "fst (executeJestTest P r w) =
      \<lparr>testCaseId = tc_id (heap w r),
       passed = (if threw \<and> stderr out \<noteq> [] then False else p0),
       error = (if threw \<and> stderr out \<noteq> [] then Some (stderr out) else e0),
       stackTrace = s0, tr_output = Some (stdout out)\<rparr>"
    unfolding executeJestTest_def by (simp add: mk wr ex rd ul Let_def)
  have p0: "p0 = (case p_JSON_parse P (stdout out) of None \<Rightarrow> True
                  | Some rep \<Rightarrow> \<not> positiveFailedCount rep)"
    using readJestReport_passed(1) [of "p_JSON_parse P (stdout out)"] rd by simp
  have thr: "threw \<Longrightarrow> p_JSON_parse P (stdout out) \<noteq> None \<Longrightarrow> \<not> p0"
    using readJestReport_passed(2) [of "p_JSON_parse P (stdout out)"] rd by simp
  have none: "p_JSON_parse P (stdout out) = None \<Longrightarrow> threw \<and> e0 = None"
    using rd by (simp add: readJestReport_def)
  show ?thesis
    unfolding res using p0 thr none
    by (cases "p_JSON_parse P (stdout out)") auto
qed


theorem executeJestTest_unparseable_passes_witness:
  "p_JSON_parse demoPrims ''no tests found'' = None
   \<and> passed (fst (executeJestTest demoPrims 0 demoWorld))
   \<and> error (fst (executeJestTest demoPrims 0 demoWorld)) = None
   \<and> tr_output (fst (executeJestTest demoPrims 0 demoWorld)) = Some ''no tests found''"
proof -
  have path: "jestTestFilePath demoPrims (heap demoWorld 0) = ''temp/addTest.junit.ts''"
    by (simp add: jestTestFilePath_def demoPrims_def demoWorld_def demoCase_def typeName_def)
  have mk: "mkdir demoPrims (p_tempDir demoPrims) demoWorld = (Inr (), demoWorld)"
    by (simp add: mkdir_def outside_def demoPrims_def demoWorld_def)
  have wr: "writeFile demoPrims (jestTestFilePath demoPrims (heap demoWorld 0))
        (tc_code (heap demoWorld 0)) demoWorld
      = (Inr (), demoWorld\<lparr>written := [(''temp/addTest.junit.ts'',
            ''import foo.Calc; class CalcTest {}'')]\<rparr>)"
    unfolding path
    by (simp add: writeFile_def outside_def demoPrims_def demoWorld_def demoCase_def)
  have ex: "execAsync demoPrims (jestCommand (jestTestFilePath demoPrims (heap demoWorld 0))) 30000
        (demoWorld\<lparr>written := [(''temp/addTest.junit.ts'',
            ''import foo.Calc; class CalcTest {}'')]\<rparr>)
      = (Inr \<lparr>stdout = ''no tests found'', stderr = []\<rparr>,
         demoWorld\<lparr>written := [(''temp/addTest.junit.ts'',
            ''import foo.Calc; class CalcTest {}'')],
           commands := [''npx jest temp/addTest.junit.ts --json --no-coverage'']\<rparr>)"
    unfolding path
    by (simp add: execAsync_def outside_def demoPrims_def demoWorld_def jestCommand_def)
  have parse: "p_JSON_parse demoPrims ''no tests found'' = None"
    by (simp add: demoPrims_def)
  from executeJestTest_unparseable_passes [OF mk wr ex]
  show ?thesis
    using parse by simp
qed

theorem executeJUnitTest_compile_failure_witness:
  "\<exists>res w3. executeJUnitTest demoPrims 0 demoWorld = (res, w3)
      \<and> testCaseId res = ''t1''
      \<and> passed res = False
      \<and> error res = Some ''Compilation failed: CalcTest.java:1: error: package foo does not exist''
      \<and> commands w3 = [''javac -cp '' @ [CHR 0x22] @ ''junit.jar:temp'' @ [CHR 0x22]
            @ '' temp/Calc.java temp/CalcTest.java'']"
proof -
  define w1 where "w1 = demoWorld\<lparr>written := [(''temp/CalcTest.java'',
      ''import foo.Calc; class CalcTest {}''), (''temp/Calc.java'', ''public class Calc {}'')]\<rparr>"
  define prep where "prep = \<lparr>className = ''CalcTest'', testFilePath = ''temp/CalcTest.java'',
      sourceClass = Some ''Calc''\<rparr>"
  have cn: "extractClassName ''import foo.Calc; class CalcTest {}'' = ''CalcTest''"
    by (simp add: extractClassName_def wordAfter_def isSpace_def isWordChar_def
          isUpperAscii_def isLowerAscii_def)
  have pc: "matchPublicClass ''public class Calc {}'' = Some ''Calc''"
    by (simp add: publicClassAt_def wordAfter_def isSpace_def isWordChar_def
          isUpperAscii_def isLowerAscii_def)
  have p: "prepareJUnit demoPrims 0 demoWorld = (Inr prep, w1)"
    unfolding prepareJUnit_def copySource_def
    by (simp add: cn pc mkdir_def writeFile_def readFile_def outside_def demoPrims_def
          demoWorld_def demoCase_def w1_def prep_def Let_def del: matchPublicClass.simps)
  have jar: "ensureJUnitJar demoPrims w1 = (Some ''junit.jar'', w1)"
    by (simp add: ensureJUnitJar_def outside_def demoPrims_def w1_def demoWorld_def)
  have ne: "''junit.jar'' \<noteq> []" by simp
  have cmd: "compileCommand demoPrims ''junit.jar'' prep = ''javac -cp '' @ [CHR 0x22]
      @ ''junit.jar:temp'' @ [CHR 0x22] @ '' temp/Calc.java temp/CalcTest.java''"
    by (simp add: compileCommand_def filesToCompile_def prep_def demoPrims_def)
  have comp: "execAsync demoPrims (compileCommand demoPrims ''junit.jar'' prep) 15000 w1
      = (Inl \<lparr>message = ''Command failed: javac'', stack = ''Error: Command failed: javac'',
               thrown_stdout = [],
               thrown_stderr = ''CalcTest.java:1: error: package foo does not exist''\<rparr>,
         w1\<lparr>commands := [compileCommand demoPrims ''junit.jar'' prep]\<rparr>)"
    unfolding cmd
    by (simp add: execAsync_def outside_def demoPrims_def w1_def demoWorld_def)
  have c0: "commands demoWorld = []" by (simp add: demoWorld_def)
  have tid: "tc_id (heap demoWorld 0) = ''t1''" by (simp add: demoWorld_def demoCase_def)
  from executeJUnitTest_compile_failure [OF p jar ne comp]
  show ?thesis
    unfolding c0 tid cmd by (auto simp: orElse_def)
qed

section \<open>Properties of the workflow\<close>

text \<open>Whether the run publishes its events.\<close>

definition publishing :: "Config \<Rightarrow> bool" where
  "publishing cfg \<longleftrightarrow> cfg_enableAbly cfg \<and> truthy (channel cfg)"

lemma consoleLog_fields [simp]:
  "state (consoleLog l R) = state R" "world (consoleLog l R) = world R"
  "published (consoleLog l R) = published R" "console (consoleLog l R) = console R @ [l]"
  by (simp_all add: consoleLog_def)

lemma setStage_fields [simp]:
  "world (setStage st R) = world R" "published (setStage st R) = published R"
  "console (setStage st R) = console R" "state (setStage st R) = (state R)\<lparr>stage := st\<rparr>"
  by (simp_all add: setStage_def)

lemma emit_fields [simp]:
  "state (emit cfg ev R) = state R" "world (emit cfg ev R) = world R"
  "console (emit cfg ev R) = console R"
  "map snd (published (emit cfg ev R)) =
     (if publishing cfg then map snd (published R) @ [ev] else map snd (published R))"
  by (simp_all add: emit_def publishing_def truthy_def split: option.splits)

lemma emit_world_update [simp]:
  "emit cfg ev (R\<lparr>world := w\<rparr>) = (emit cfg ev R)\<lparr>world := w\<rparr>"
  by (simp add: emit_def split: option.splits)

lemma startRun_fields [simp]:
  "state (startRun cfg w) = initialState" "world (startRun cfg w) = w"
  "console (startRun cfg w) = [LogStarting (cfg_filePath cfg)]"
  "map snd (published (startRun cfg w)) = (if publishing cfg then [workflow_started] else [])"
  by (simp_all add: startRun_def)

lemma enterGenerating_fields [simp]:
  "state (enterGenerating cfg R) = (state R)\<lparr>stage := generating\<rparr>"
  "world (enterGenerating cfg R) = world R"
  "console (enterGenerating cfg R) = console R @ [LogStage1]"
  "map snd (published (enterGenerating cfg R)) =
     (if publishing cfg then map snd (published R) @ [workflow_stage_changed generating]
      else map snd (published R))"
  by (simp_all add: enterGenerating_def)

lemma recordGenerated_fields [simp]:
  "state (recordGenerated cfg cases w R) = (state R)\<lparr>testCases := cases, stage := executing\<rparr>"
  "world (recordGenerated cfg cases w R) = w"
  "console (recordGenerated cfg cases w R) = console R @ [LogGenerated (length cases), LogStage2]"
  "map snd (published (recordGenerated cfg cases w R)) =
     (if publishing cfg
      then map snd (published R) @ [workflow_test_generated (length cases),
             workflow_stage_changed executing]
      else map snd (published R))"
  by (simp_all add: recordGenerated_def Let_def)

lemma recordExecuted_fields [simp]:
  "state (recordExecuted cfg results w R) = (state R)\<lparr>testResults := results\<rparr>"
  "world (recordExecuted cfg results w R) = storeTestResults results w"
  "console (recordExecuted cfg results w R) =
     console R @ [LogPassed (length (passedOf results)), LogFailed (length (failedOf results))]"
  "map snd (published (recordExecuted cfg results w R)) =
     (if publishing cfg
      then map snd (published R) @ [workflow_test_executed (length (passedOf results))
             (length (failedOf results)) False]
      else map snd (published R))"
  by (simp_all add: recordExecuted_def Let_def)

lemma finishAllPassed_fields [simp]:
  "state (finishAllPassed cfg R) = (state R)\<lparr>stage := completed\<rparr>"
  "world (finishAllPassed cfg R) = world R"
  "console (finishAllPassed cfg R) = console R @ [LogAllPassed]"
  "map snd (published (finishAllPassed cfg R)) =
     (if publishing cfg then map snd (published R) @ [workflow_completed]
      else map snd (published R))"
  by (simp_all add: finishAllPassed_def)

lemma enterFixing_fields [simp]:
  "state (enterFixing cfg R) = (state R)\<lparr>stage := fixing\<rparr>"
  "world (enterFixing cfg R) = world R"
  "console (enterFixing cfg R) = console R @ [LogStage3]"
  by (simp_all add: enterFixing_def)

lemma catchBlock_fields [simp]:
  "state (catchBlock cfg err R) =
     (state R)\<lparr>stage := failed, errors := errors (state R) @ [message err]\<rparr>"
  "world (catchBlock cfg err R) = world R"
  "console (catchBlock cfg err R) = console R @ [LogWorkflowFailed (message err)]"
  by (simp_all add: catchBlock_def Let_def)

text \<open>
  C3. When the first execution pass has no failing result, the run ends with
  stage \<open>completed\<close>, the generated cases and the results of that pass, and no
  bug fix and no error. Its console shows the lines of stages 1 and 2 and
  \<open>All tests passed\<close> only: stage 3 (fixing) and stage 4 (validating) are not
  entered. The events are those of the stages \<open>generating\<close> and \<open>executing\<close>
  and the terminal \<open>workflow.completed\<close>, and the world is the one the first
  pass left, with its results stored: no fix was attempted and nothing was run
  again.
\<close>

theorem no_failures_completes:
  assumes cfg: "cfg = resolveOptions fresh args"
    and gen: "imp_generateTestsForFile I (cfg_filePath cfg) (finalTestType cfg)
                (finalRequirements cfg) w = (Inr cases, w1)"
    and ex: "executeTests I cfg cases w1 = (Inr results, w2)"
    and ok: "failedOf results = []"
  shows "state (runClosedLoopWorkflow I fresh args w) =
           \<lparr>stage = completed, testCases = cases, testResults = results,
            bugFixes = [], errors = []\<rparr>
      \<and> console (runClosedLoopWorkflow I fresh args w) =
           [LogStarting (cfg_filePath cfg), LogStage1, LogGenerated (length cases), LogStage2,
            LogPassed (length results), LogFailed 0, LogAllPassed]
      \<and> map snd (published (runClosedLoopWorkflow I fresh args w)) =
           (if publishing cfg
            then [workflow_started, workflow_stage_changed generating,
                  workflow_test_generated (length cases), workflow_stage_changed executing,
                  workflow_test_executed (length results) 0 False, workflow_completed]
            else [])
      \<and> world (runClosedLoopWorkflow I fresh args w) = storeTestResults results w2"
proof -
  have all: "passedOf results = results"
    using ok by (simp add: failedOf_def passedOf_def filter_empty_conv)
  show ?thesis
    unfolding runClosedLoopWorkflow_def tryBlock_def cfg [symmetric] Let_def
    using gen ex ok all
    by (simp add: initialState_def)
qed


text \<open>
  The console lines that mark a round of the loop: \<open>Fix attempt k/n\<close> opens the
  sweep over the failing results, \<open>Stage 4\<close> the re-execution. \<open>fixFailures\<close>
  are the messages of the \<open>Failed to generate fix\<close> lines.
\<close>

fun isPassLine :: "ConsoleLine \<Rightarrow> bool" where
  "isPassLine (LogFixAttempt k n) = True"
| "isPassLine LogStage4 = True"
| "isPassLine l = False"

definition passLines :: "ConsoleLine list \<Rightarrow> ConsoleLine list" where
  "passLines ls = filter isPassLine ls"

fun fixFailure :: "ConsoleLine \<Rightarrow> string list" where
  "fixFailure (LogFixFailed m) = [m]"
| "fixFailure l = []"

definition fixFailures :: "ConsoleLine list \<Rightarrow> string list" where
  "fixFailures ls = concat (map fixFailure ls)"

lemma passLines_append [simp]: "passLines (xs @ ys) = passLines xs @ passLines ys"
  by (simp add: passLines_def)

lemma fixFailures_append [simp]: "fixFailures (xs @ ys) = fixFailures xs @ fixFailures ys"
  by (simp add: fixFailures_def)

lemma passLines_simps [simp]:
  "passLines [] = []" "passLines (l # ls) = (if isPassLine l then l # passLines ls else passLines ls)"
  by (simp_all add: passLines_def)

lemma fixFailures_simps [simp]:
  "fixFailures [] = []" "fixFailures (l # ls) = fixFailure l @ fixFailures ls"
  by (simp_all add: fixFailures_def)

lemma emit_published_prefix:
  "\<exists>evs. published (emit cfg ev R) = published R @ evs"
  by (simp add: emit_def split: option.splits)


lemma fixOne_count:
  "length (bugFixes (state (fixOne I cfg r R))) + length (errors (state (fixOne I cfg r R)))
     = Suc (length (bugFixes (state R)) + length (errors (state R)))"
  by (simp add: fixOne_def Let_def split: option.splits sum.splits prod.splits)



lemma fixPass_append: "fixPass I cfg (xs @ ys) R = fixPass I cfg ys (fixPass I cfg xs R)"
  by (induction xs arbitrary: R) simp_all


lemma fixPass_count:
  "length (bugFixes (state (fixPass I cfg rs R))) + length (errors (state (fixPass I cfg rs R)))
     = length rs + (length (bugFixes (state R)) + length (errors (state R)))"
  by (induction rs arbitrary: R) (simp_all add: fixOne_count)



text \<open>The pieces of the loop body keep or set these fields.\<close>

lemma enterValidating_fields [simp]:
  "state (enterValidating cfg R) = (state R)\<lparr>stage := validating\<rparr>"
  "world (enterValidating cfg R) = world R"
  "console (enterValidating cfg R) = console R @ [LogStage4]"
  by (simp_all add: enterValidating_def)

lemma recordRetest_fields [simp]:
  "state (recordRetest cfg rs w R) = (state R)\<lparr>testResults := rs\<rparr>"
  "world (recordRetest cfg rs w R) = storeTestResults rs w"
  "console (recordRetest cfg rs w R) =
     console R @ [LogRetestResults, LogPassed (length (passedOf rs)), LogFailed (length (failedOf rs))]"
  by (simp_all add: recordRetest_def Let_def)




text \<open>
  The re-execution of the round that starts with retry count \<open>n\<close>, the failing
  results \<open>fr\<close> and the run \<open>R\<close>: the call of the executor on all test cases,
  behind the sweep of that round.
\<close>

definition reexecute ::
  "'x collaborators \<Rightarrow> Config \<Rightarrow> int \<Rightarrow> TestResult list \<Rightarrow> 'x run
     \<Rightarrow> (Thrown + TestResult list) \<times> 'x world" where
  "reexecute I cfg n fr R =
     executeTests I cfg (testCases (state (sweep I cfg n fr R))) (world (sweep I cfg n fr R))"

lemma loopBody_Continue:
  assumes "finalAutoApplyFixes cfg" and "reexecute I cfg n fr R = (Inr rs, w')"
    and "failedOf rs \<noteq> []"
  shows "loopBody I cfg n fr R
     = Continue (failedOf rs) (recordRetest cfg rs w' (enterValidating cfg (sweep I cfg n fr R)))"
  using assms by (simp add: loopBody_def reexecute_def Let_def)

lemma loopBody_Throw:
  assumes "finalAutoApplyFixes cfg" and "reexecute I cfg n fr R = (Inl e, w')"
  shows "loopBody I cfg n fr R = Throw e ((enterValidating cfg (sweep I cfg n fr R))\<lparr>world := w'\<rparr>)"
  using assms by (simp add: loopBody_def reexecute_def Let_def)

text \<open>
  The loop at the head of its round \<open>k\<close>, counted from a head with retry
  count \<open>n\<close>: the failing results and the run that \<open>k\<close> full rounds leave;
  \<open>None\<close> when the loop ends before.
\<close>

primrec roundHead ::
  "'x collaborators \<Rightarrow> Config \<Rightarrow> nat \<Rightarrow> int \<Rightarrow> TestResult list \<Rightarrow> 'x run
     \<Rightarrow> (TestResult list \<times> 'x run) option" where
  "roundHead I cfg 0 n fr R = Some (fr, R)"
| "roundHead I cfg (Suc k) n fr R =
     (if n < finalMaxRetries cfg \<and> length fr > 0 then
        (case loopBody I cfg n fr R of
           Continue fr' R' \<Rightarrow> roundHead I cfg k (n + 1) fr' R'
         | Break R' \<Rightarrow> None
         | Return R' \<Rightarrow> None
         | Throw err R' \<Rightarrow> None)
      else None)"

lemma roundHead_fixLoop:
  "roundHead I cfg k n fr R = Some (fr', R') \<Longrightarrow>
     fixLoop I cfg n fr R = fixLoop I cfg (n + int k) fr' R'"
proof (induction k arbitrary: n fr R)
  case 0
  then show ?case by simp
next
  case (Suc k)
  from Suc.prems have cond: "n < finalMaxRetries cfg \<and> 0 < length fr"
    by (simp split: if_splits)
  with Suc.prems obtain fr1 R1 where
    body: "loopBody I cfg n fr R = Continue fr1 R1"
    and rest: "roundHead I cfg k (n + 1) fr1 R1 = Some (fr', R')"
    by (auto split: LoopStep.splits)
  have "fixLoop I cfg n fr R = fixLoop I cfg (n + 1) fr1 R1"
    using cond body by (simp add: fixLoop.simps [of I cfg n fr R])
  also have "\<dots> = fixLoop I cfg (n + 1 + int k) fr' R'"
    by (rule Suc.IH [OF rest])
  finally show ?case by (simp add: algebra_simps)
qed

lemma roundHead_Suc:
  "roundHead I cfg k n fr R = Some (fr1, R1) \<Longrightarrow>
     roundHead I cfg (Suc k) n fr R =
       (if n + int k < finalMaxRetries cfg \<and> length fr1 > 0 then
          (case loopBody I cfg (n + int k) fr1 R1 of
             Continue fr' R' \<Rightarrow> Some (fr', R')
           | Break R' \<Rightarrow> None
           | Return R' \<Rightarrow> None
           | Throw err R' \<Rightarrow> None)
        else None)"
proof (induction k arbitrary: n fr R)
  case 0
  then show ?case by (simp split: LoopStep.splits)
next
  case (Suc k)
  from Suc.prems have cond: "n < finalMaxRetries cfg \<and> 0 < length fr"
    by (simp split: if_splits)
  with Suc.prems obtain fr2 R2 where
    body: "loopBody I cfg n fr R = Continue fr2 R2"
    and rest: "roundHead I cfg k (n + 1) fr2 R2 = Some (fr1, R1)"
    by (auto split: LoopStep.splits)
  have "roundHead I cfg (Suc (Suc k)) n fr R = roundHead I cfg (Suc k) (n + 1) fr2 R2"
    using cond body by simp
  also note Suc.IH [OF rest]
  finally show ?case by (simp add: algebra_simps)
qed






text \<open>The run at the entry of the loop, behind a first execution pass with failures.\<close>

definition fixingRun ::
  "Config \<Rightarrow> 'x world \<Rightarrow> nat list \<Rightarrow> 'x world \<Rightarrow> TestResult list \<Rightarrow> 'x world \<Rightarrow> 'x run" where
  "fixingRun cfg w cases w1 results w2 =
     enterFixing cfg (recordExecuted cfg results w2
       (recordGenerated cfg cases w1 (enterGenerating cfg (startRun cfg w))))"

lemma fixingRun_fields [simp]:
  "state (fixingRun cfg w cases w1 results w2) =
     \<lparr>stage = fixing, testCases = cases, testResults = results, bugFixes = [], errors = []\<rparr>"
  "world (fixingRun cfg w cases w1 results w2) = storeTestResults results w2"
  "passLines (console (fixingRun cfg w cases w1 results w2)) = []"
  "fixFailures (console (fixingRun cfg w cases w1 results w2)) = []"
  by (simp_all add: fixingRun_def initialState_def)

lemma tryBlock_fixing:
  assumes gen: "imp_generateTestsForFile I (cfg_filePath cfg) (finalTestType cfg)
                (finalRequirements cfg) w = (Inr cases, w1)"
    and ex: "executeTests I cfg cases w1 = (Inr results, w2)"
    and bad: "failedOf results \<noteq> []"
  shows "tryBlock I cfg (startRun cfg w) =
      (case fixLoop I cfg 0 (failedOf results) (fixingRun cfg w cases w1 results w2) of
         Continue f R' \<Rightarrow> Inr (finalStatus cfg R')
       | Break R' \<Rightarrow> Inr (finalStatus cfg R')
       | Return R' \<Rightarrow> Inr R'
       | Throw err R' \<Rightarrow> Inl (err, R'))"
  unfolding tryBlock_def Let_def fixingRun_def
  using bad by (simp add: gen ex)



lemma round_step:
  assumes auto: "finalAutoApplyFixes cfg"
    and head: "roundHead I cfg k 0 fr0 R0 = Some (fr, R)"
    and k: "int k < finalMaxRetries cfg" and fr: "fr \<noteq> []"
    and re: "reexecute I cfg (int k) fr R = (Inr rs, w')" and bad: "failedOf rs \<noteq> []"
  shows "roundHead I cfg (Suc k) 0 fr0 R0 =
     Some (failedOf rs, recordRetest cfg rs w' (enterValidating cfg (sweep I cfg (int k) fr R)))"
  using roundHead_Suc [OF head] loopBody_Continue [OF auto re bad] k fr by simp







text \<open>
  C6. When the fix attempt for one failing result throws, the sweep goes on with
  the results behind it, from a run that differs from the one before the attempt
  in the message added to \<open>errors\<close> (no bug fix is added, no event published)
  and in the console. Over the whole sweep every failing result gives one bug fix
  or one error.
\<close>

theorem fix_failure_is_isolated:
  assumes thr: "imp_autoFixFailedTest I r (finalAutoApplyFixes cfg)
      (world (fixPass I cfg before R)) = (Inl e, w')"
  shows "\<exists>R2. fixPass I cfg (before @ r # rest) R = fixPass I cfg rest R2
      \<and> state R2 = (state (fixPass I cfg before R))
           \<lparr>errors := errors (state (fixPass I cfg before R)) @ [message e]\<rparr>
      \<and> world R2 = w'
      \<and> published R2 = published (fixPass I cfg before R)
      \<and> length (bugFixes (state (fixPass I cfg (before @ r # rest) R)))
           + length (errors (state (fixPass I cfg (before @ r # rest) R)))
         = length (before @ r # rest)
           + (length (bugFixes (state R)) + length (errors (state R)))"
proof -
  have one: "state (fixOne I cfg r (fixPass I cfg before R)) = (state (fixPass I cfg before R))
           \<lparr>errors := errors (state (fixPass I cfg before R)) @ [message e]\<rparr>
      \<and> world (fixOne I cfg r (fixPass I cfg before R)) = w'
      \<and> published (fixOne I cfg r (fixPass I cfg before R)) = published (fixPass I cfg before R)"
    unfolding fixOne_def Let_def
    using thr by (simp add: consoleLog_def split: option.splits)
  have cnt: "length (bugFixes (state (fixPass I cfg (before @ r # rest) R)))
           + length (errors (state (fixPass I cfg (before @ r # rest) R)))
         = length (before @ r # rest)
           + (length (bugFixes (state R)) + length (errors (state R)))"
    by (rule fixPass_count)
  have split: "fixPass I cfg (before @ r # rest) R
      = fixPass I cfg rest (fixOne I cfg r (fixPass I cfg before R))"
    by (simp add: fixPass_append)
  show ?thesis
    using one cnt split by blast
qed

lemma loopBody_Return_stage:
  "loopBody I cfg n fr R = Return R' \<Longrightarrow> stage (state R') = completed"
  unfolding loopBody_def finishAllFixed_def Let_def
  by (auto split: if_splits prod.splits sum.splits)

lemma fixLoop_Return_stage:
  "fixLoop I cfg n fr R = Return R' \<Longrightarrow> stage (state R') = completed"
proof (induction I cfg n fr R rule: fixLoop.induct)
  case (1 I cfg n fr R)
  show ?case
  proof (cases "n < finalMaxRetries cfg \<and> 0 < length fr")
    case False
    with "1.prems" show ?thesis
      by (auto simp: fixLoop.simps [of I cfg n fr R] split: if_splits)
  next
    case True
    show ?thesis
    proof (cases "loopBody I cfg n fr R")
      case (Continue f R1)
      with "1.prems" True have "fixLoop I cfg (n + 1) f R1 = Return R'"
        by (simp add: fixLoop.simps [of I cfg n fr R])
      then show ?thesis by (rule "1.IH" [OF True Continue])
    next
      case (Break R1)
      with "1.prems" True show ?thesis by (simp add: fixLoop.simps [of I cfg n fr R])
    next
      case (Return R1)
      with "1.prems" True have "R1 = R'" by (simp add: fixLoop.simps [of I cfg n fr R])
      with Return show ?thesis by (simp add: loopBody_Return_stage)
    next
      case (Throw e R1)
      with "1.prems" True show ?thesis by (simp add: fixLoop.simps [of I cfg n fr R])
    qed
  qed
qed

lemma finalStatus_stage:
  "stage (state (finalStatus cfg R)) = completed \<or> stage (state (finalStatus cfg R)) = failed"
  by (simp add: finalStatus_def)

lemma tryBlock_Inr_stage:
  "tryBlock I cfg R0 = Inr R \<Longrightarrow> stage (state R) = completed \<or> stage (state R) = failed"
  unfolding tryBlock_def Let_def
  using finalStatus_stage [of cfg]
  by (auto split: prod.splits sum.splits if_splits LoopStep.splits
        dest: fixLoop_Return_stage)

lemma fixLoop_reexecution_throws:
  assumes auto: "finalAutoApplyFixes cfg"
    and head: "roundHead I cfg k 0 fr0 R0 = Some (fr, R)"
    and k: "int k < finalMaxRetries cfg" and fr: "fr \<noteq> []"
    and re: "reexecute I cfg (int k) fr R = (Inl e, w')"
  shows "fixLoop I cfg 0 fr0 R0
     = Throw e ((enterValidating cfg (sweep I cfg (int k) fr R))\<lparr>world := w'\<rparr>)"
proof -
  have "fixLoop I cfg 0 fr0 R0 = fixLoop I cfg (0 + int k) fr R"
    by (rule roundHead_fixLoop [OF head])
  also have "\<dots> = Throw e ((enterValidating cfg (sweep I cfg (int k) fr R))\<lparr>world := w'\<rparr>)"
    using k fr loopBody_Throw [OF auto re] by (simp add: fixLoop.simps [of I cfg "int k"])
  finally show ?thesis .
qed

text \<open>
  C1. \<open>runClosedLoopWorkflow\<close> returns a state in every case, with stage
  \<open>completed\<close> or \<open>failed\<close>. When the generation throws, or the first
  execution pass throws, the state returned has stage \<open>failed\<close> and the message
  of the error in \<open>errors\<close>. When the re-execution of a later round throws,
  whichever round the loop has reached, the state returned is the state the sweep
  of that round has left, with the stage \<open>failed\<close> and the message appended to
  \<open>errors\<close>, and the world is the one the failed call has left. And whatever
  error leaves the \<open>try\<close> block, the state returned is the state at that moment
  with the stage set to \<open>failed\<close> and the message appended to \<open>errors\<close>.
\<close>

theorem collaborator_errors_are_recorded:
  assumes cfg: "cfg = resolveOptions fresh args"
  shows "(\<forall>e w1. imp_generateTestsForFile I (cfg_filePath cfg) (finalTestType cfg)
                (finalRequirements cfg) w = (Inl e, w1) \<longrightarrow>
            state (runClosedLoopWorkflow I fresh args w) =
              \<lparr>stage = failed, testCases = [], testResults = [], bugFixes = [],
               errors = [message e]\<rparr>)
      \<and> (\<forall>cases w1 e w2. imp_generateTestsForFile I (cfg_filePath cfg) (finalTestType cfg)
                (finalRequirements cfg) w = (Inr cases, w1)
              \<and> executeTests I cfg cases w1 = (Inl e, w2) \<longrightarrow>
            state (runClosedLoopWorkflow I fresh args w) =
              \<lparr>stage = failed, testCases = cases, testResults = [], bugFixes = [],
               errors = [message e]\<rparr>)
      \<and> (\<forall>cases w1 results w2 k fr R e w'.
              imp_generateTestsForFile I (cfg_filePath cfg) (finalTestType cfg)
                (finalRequirements cfg) w = (Inr cases, w1)
              \<and> executeTests I cfg cases w1 = (Inr results, w2)
              \<and> failedOf results \<noteq> []
              \<and> finalAutoApplyFixes cfg
              \<and> roundHead I cfg k 0 (failedOf results) (fixingRun cfg w cases w1 results w2)
                    = Some (fr, R)
              \<and> int k < finalMaxRetries cfg \<and> fr \<noteq> []
              \<and> executeTests I cfg (testCases (state (sweep I cfg (int k) fr R)))
                    (world (sweep I cfg (int k) fr R)) = (Inl e, w') \<longrightarrow>
            state (runClosedLoopWorkflow I fresh args w) =
              (state (sweep I cfg (int k) fr R))
                \<lparr>stage := failed,
                 errors := errors (state (sweep I cfg (int k) fr R)) @ [message e]\<rparr>
            \<and> world (runClosedLoopWorkflow I fresh args w) = w')
      \<and> (\<forall>e R. tryBlock I cfg (startRun cfg w) = Inl (e, R) \<longrightarrow>
            state (runClosedLoopWorkflow I fresh args w) =
              (state R)\<lparr>stage := failed, errors := errors (state R) @ [message e]\<rparr>)
      \<and> (stage (state (runClosedLoopWorkflow I fresh args w)) = completed
           \<or> stage (state (runClosedLoopWorkflow I fresh args w)) = failed)"
proof -
  have a: "state (runClosedLoopWorkflow I fresh args w) =
        \<lparr>stage = failed, testCases = [], testResults = [], bugFixes = [], errors = [message e]\<rparr>"
    if "imp_generateTestsForFile I (cfg_filePath cfg) (finalTestType cfg)
                (finalRequirements cfg) w = (Inl e, w1)" for e w1
    unfolding runClosedLoopWorkflow_def tryBlock_def cfg [symmetric] Let_def
    using that by (simp add: initialState_def)
  have b: "state (runClosedLoopWorkflow I fresh args w) =
        \<lparr>stage = failed, testCases = cases, testResults = [], bugFixes = [],
         errors = [message e]\<rparr>"
    if "imp_generateTestsForFile I (cfg_filePath cfg) (finalTestType cfg)
                (finalRequirements cfg) w = (Inr cases, w1)"
      and "executeTests I cfg cases w1 = (Inl e, w2)" for cases w1 e w2
    unfolding runClosedLoopWorkflow_def tryBlock_def cfg [symmetric] Let_def
    using that by (simp add: initialState_def)
  have r: "state (runClosedLoopWorkflow I fresh args w) =
              (state (sweep I cfg (int k) fr R))
                \<lparr>stage := failed,
                 errors := errors (state (sweep I cfg (int k) fr R)) @ [message e]\<rparr>
            \<and> world (runClosedLoopWorkflow I fresh args w) = w'"
    if gen: "imp_generateTestsForFile I (cfg_filePath cfg) (finalTestType cfg)
                (finalRequirements cfg) w = (Inr cases, w1)"
      and ex: "executeTests I cfg cases w1 = (Inr results, w2)"
      and bad: "failedOf results \<noteq> []"
      and auto: "finalAutoApplyFixes cfg"
      and head: "roundHead I cfg k 0 (failedOf results) (fixingRun cfg w cases w1 results w2)
                    = Some (fr, R)"
      and k: "int k < finalMaxRetries cfg" and fr: "fr \<noteq> []"
      and re: "executeTests I cfg (testCases (state (sweep I cfg (int k) fr R)))
                    (world (sweep I cfg (int k) fr R)) = (Inl e, w')"
    for cases w1 results w2 k fr R e w'
  proof -
    have re': "reexecute I cfg (int k) fr R = (Inl e, w')"
      using re by (simp add: reexecute_def)
    note lp = fixLoop_reexecution_throws [OF auto head k fr re']
    show ?thesis
      unfolding runClosedLoopWorkflow_def cfg [symmetric] Let_def
      by (simp add: tryBlock_fixing [OF gen ex bad] lp)
  qed
  have c: "state (runClosedLoopWorkflow I fresh args w) =
        (state R)\<lparr>stage := failed, errors := errors (state R) @ [message e]\<rparr>"
    if "tryBlock I cfg (startRun cfg w) = Inl (e, R)" for e R
    unfolding runClosedLoopWorkflow_def cfg [symmetric] Let_def
    using that by simp
  have d: "stage (state (runClosedLoopWorkflow I fresh args w)) = completed
           \<or> stage (state (runClosedLoopWorkflow I fresh args w)) = failed"
  proof (cases "tryBlock I cfg (startRun cfg w)")
    case (Inl p)
    then show ?thesis
      unfolding runClosedLoopWorkflow_def cfg [symmetric] Let_def
      by (cases p) simp
  next
    case (Inr R)
    then show ?thesis
      unfolding runClosedLoopWorkflow_def cfg [symmetric] Let_def
      using tryBlock_Inr_stage [OF Inr] by simp
  qed
  show ?thesis using a b r c d by blast
qed

section \<open>Concrete runs of the workflow\<close>

text \<open>
  Concrete runs with the repository's own collaborators over the scripted outside
  world: an empty store to start from; a child process that never starts
  (\<open>failingPrims\<close>), so that every test fails; a generator that rejects the
  file (\<open>brokenGenerator\<close>).
\<close>

definition emptyWorld :: "nat world" where
  "emptyWorld = \<lparr>heap = (\<lambda>r. demoCase\<lparr>tc_id := []\<rparr>), nextRef = 0, storedTestCases = Map.empty,
     storedTestResults = Map.empty, storedBugFixes = Map.empty,
     written = [], commands = [], ext = 0\<rparr>"


definition brokenGenerator :: "nat prims" where
  "brokenGenerator = demoPrims\<lparr>p_generateDrafts :=
     (\<lambda>path t reqs n. (Inl (newError ''Unsupported file type: .txt''), n))\<rparr>"

definition storedWorld :: "nat world" where
  "storedWorld = emptyWorld\<lparr>heap := (heap emptyWorld)(0 := demoCase\<lparr>tc_id := ''u''\<rparr>),
     nextRef := 1, storedTestCases := [''u'' \<mapsto> 0], ext := 1\<rparr>"

lemma demo_generate:
  "generateTestsForFile demoPrims ''Calc.java'' jest None emptyWorld = (Inr [0], storedWorld)"
  by (simp add: generateTestsForFile_def outside_def demoPrims_def emptyWorld_def storedWorld_def
        storeTestCase_def uuidv4_def demoCase_def Let_def)


definition passedResult :: TestResult where
  "passedResult = \<lparr>testCaseId = ''u'', passed = True, error = None, stackTrace = None,
     tr_output = Some ''no tests found''\<rparr>"

definition ranWorld :: "nat world" where
  "ranWorld = storedWorld\<lparr>
     written := [(''temp/addTest.junit.ts'', ''import foo.Calc; class CalcTest {}'')],
     commands := [''npx jest temp/addTest.junit.ts --json --no-coverage'']\<rparr>"

lemma demo_execute:
  "executeJestTests demoPrims [0] storedWorld = ([passedResult], ranWorld)"
  by (simp add: executeJestTest_def jestTestFilePath_def jestCommand_def typeName_def mkdir_def
        writeFile_def execAsync_def unlink_def outside_def readJestReport_def demoPrims_def
        storedWorld_def emptyWorld_def ranWorld_def passedResult_def demoCase_def Let_def)

theorem no_failures_completes_witness:
  "failedOf [passedResult] = []
   \<and> state (runClosedLoopWorkflow (repoImports demoPrims) ''wf''
        (Positional ''Calc.java'' (Some jest) None None None) emptyWorld)
      = \<lparr>stage = completed, testCases = [0], testResults = [passedResult],
         bugFixes = [], errors = []\<rparr>
   \<and> console (runClosedLoopWorkflow (repoImports demoPrims) ''wf''
        (Positional ''Calc.java'' (Some jest) None None None) emptyWorld)
      = [LogStarting ''Calc.java'', LogStage1, LogGenerated 1, LogStage2, LogPassed 1,
         LogFailed 0, LogAllPassed]"
proof -
  define cfg where "cfg = resolveOptions ''wf'' (Positional ''Calc.java'' (Some jest) None None None)"
  have c: "cfg_filePath cfg = ''Calc.java''" "finalTestType cfg = jest"
    "finalRequirements cfg = None"
    by (simp_all add: cfg_def resolveOptions_def)
  have gen: "imp_generateTestsForFile (repoImports demoPrims) (cfg_filePath cfg)
      (finalTestType cfg) (finalRequirements cfg) emptyWorld = (Inr [0], storedWorld)"
    unfolding c by (simp add: repoImports_def demo_generate)
  have ex: "executeTests (repoImports demoPrims) cfg [0] storedWorld = (Inr [passedResult], ranWorld)"
    by (simp add: executeTests_def c repoImports_def demo_execute del: executeJestTests.simps)
  have ok: "failedOf [passedResult] = []"
    by (simp add: failedOf_def passedResult_def)
  from no_failures_completes [OF cfg_def gen ex ok]
  show ?thesis
    using ok c by simp
qed




definition autoArgs :: WorkflowArgs where
  "autoArgs = Options \<lparr>filePath = ''Calc.java'', testType = jest, requirements = None,
     autoApplyFixes = Some True, maxRetries = Some 2, workflowId = None, projectId = None,
     userId = None, channelName = None, enableAbly = Some (Some False)\<rparr>"

definition spawnFailure :: TestResult where
  "spawnFailure = \<lparr>testCaseId = ''u'', passed = False, error = Some ''spawn ENOENT'',
     stackTrace = Some ''spawn ENOENT'', tr_output = None\<rparr>"



definition manualArgs :: WorkflowArgs where
  "manualArgs = Options \<lparr>filePath = ''Calc.java'', testType = jest, requirements = None,
     autoApplyFixes = None, maxRetries = None, workflowId = None, projectId = None,
     userId = None, channelName = None, enableAbly = None\<rparr>"





definition ghostFailure :: TestResult where
  "ghostFailure = \<lparr>testCaseId = ''ghost'', passed = False, error = Some ''boom'',
     stackTrace = None, tr_output = None\<rparr>"

definition manualConfig :: Config where
  "manualConfig = resolveOptions ''wf'' manualArgs"

theorem fix_failure_is_isolated_witness:
  "\<exists>R2. fixPass (repoImports demoPrims) manualConfig [ghostFailure, spawnFailure]
           (startRun manualConfig storedWorld)
         = fixPass (repoImports demoPrims) manualConfig [spawnFailure] R2
      \<and> state R2 = initialState\<lparr>errors := [''Test case not found'']\<rparr>
      \<and> world R2 = storedWorld
      \<and> published R2 = published (startRun manualConfig storedWorld)
      \<and> length (bugFixes (state (fixPass (repoImports demoPrims) manualConfig
            [ghostFailure, spawnFailure] (startRun manualConfig storedWorld))))
         + length (errors (state (fixPass (repoImports demoPrims) manualConfig
            [ghostFailure, spawnFailure] (startRun manualConfig storedWorld)))) = 2"
proof -
  have thr: "imp_autoFixFailedTest (repoImports demoPrims) ghostFailure
      (finalAutoApplyFixes manualConfig)
      (world (fixPass (repoImports demoPrims) manualConfig [] (startRun manualConfig storedWorld)))
      = (Inl (newError ''Test case not found''), storedWorld)"
    by (simp add: repoImports_def autoFixFailedTest_def getTestCase_def ghostFailure_def
          storedWorld_def emptyWorld_def)
  have m: "message (newError ''Test case not found'') = ''Test case not found''"
    by (simp add: newError_def)
  have s0: "state (fixPass (repoImports demoPrims) manualConfig []
      (startRun manualConfig storedWorld)) = initialState"
    "published (fixPass (repoImports demoPrims) manualConfig []
      (startRun manualConfig storedWorld)) = published (startRun manualConfig storedWorld)"
    by simp_all
  have i0: "initialState\<lparr>errors := errors initialState @ [''Test case not found'']\<rparr>
      = initialState\<lparr>errors := [''Test case not found'']\<rparr>"
    "length (bugFixes initialState) + length (errors initialState) = 0"
    by (simp_all add: initialState_def)
  have l: "length ([] @ [ghostFailure, spawnFailure]) = 2" "[] @ ghostFailure # [spawnFailure]
      = [ghostFailure, spawnFailure]"
    by simp_all
  from fix_failure_is_isolated [OF thr, of "[spawnFailure]"]
  show ?thesis
    unfolding s0 m i0 l startRun_fields by auto
qed

text \<open>
  Executors that throw, which those of the repository never do: one that throws
  at once, and one that reports a failing test twice and throws at its third
  call, next to a fix agent that gives up on every failure.
\<close>

definition deadExecutor :: "nat collaborators" where
  "deadExecutor = (repoImports demoPrims)\<lparr>
     imp_executeJestTests := (\<lambda>cases w. (Inl (newError ''executor crashed''), w))\<rparr>"

definition crashingImports :: "nat collaborators" where
  "crashingImports = (repoImports demoPrims)\<lparr>
     imp_executeJestTests := (\<lambda>cases w.
        if length (commands w) < 2
        then (Inr [spawnFailure], w\<lparr>commands := commands w @ [''npx jest'']\<rparr>)
        else (Inl (newError ''executor crashed''), w)),
     imp_autoFixFailedTest := (\<lambda>failedResult autoApply w. (Inl (newError ''no fix''), w))\<rparr>"

theorem collaborator_errors_are_recorded_witness:
  "imp_generateTestsForFile (repoImports brokenGenerator) ''notes.txt'' jest None emptyWorld
     = (Inl (newError ''Unsupported file type: .txt''), emptyWorld)
   \<and> state (runClosedLoopWorkflow (repoImports brokenGenerator) ''wf''
        (Positional ''notes.txt'' None None None None) emptyWorld)
      = \<lparr>stage = failed, testCases = [], testResults = [], bugFixes = [],
         errors = [''Unsupported file type: .txt'']\<rparr>
   \<and> state (runClosedLoopWorkflow deadExecutor ''wf''
        (Positional ''Calc.java'' (Some jest) None None None) emptyWorld)
      = \<lparr>stage = failed, testCases = [0], testResults = [], bugFixes = [],
         errors = [''executor crashed'']\<rparr>
   \<and> state (runClosedLoopWorkflow crashingImports ''wf'' autoArgs emptyWorld)
      = \<lparr>stage = failed, testCases = [0], testResults = [spawnFailure], bugFixes = [],
         errors = [''no fix'', ''no fix'', ''executor crashed'']\<rparr>"
proof -
  define cfg where "cfg = resolveOptions ''wf'' (Positional ''notes.txt'' None None None None)"
  have c: "cfg_filePath cfg = ''notes.txt''" "finalTestType cfg = jest"
    "finalRequirements cfg = None"
    by (simp_all add: cfg_def resolveOptions_def)
  have gen: "imp_generateTestsForFile (repoImports brokenGenerator) ''notes.txt'' jest None
      emptyWorld = (Inl (newError ''Unsupported file type: .txt''), emptyWorld)"
    by (simp add: repoImports_def generateTestsForFile_def outside_def brokenGenerator_def
          demoPrims_def emptyWorld_def)
  have m: "message (newError ''Unsupported file type: .txt'') = ''Unsupported file type: .txt''"
    by (simp add: newError_def)
  from collaborator_errors_are_recorded [OF cfg_def, of "repoImports brokenGenerator" emptyWorld]
  have first: "state (runClosedLoopWorkflow (repoImports brokenGenerator) ''wf''
        (Positional ''notes.txt'' None None None None) emptyWorld)
      = \<lparr>stage = failed, testCases = [], testResults = [], bugFixes = [],
         errors = [message (newError ''Unsupported file type: .txt'')]\<rparr>"
    using gen unfolding c by blast
  define cfd where "cfd = resolveOptions ''wf'' (Positional ''Calc.java'' (Some jest) None None None)"
  have d: "cfg_filePath cfd = ''Calc.java''" "finalTestType cfd = jest"
    "finalRequirements cfd = None"
    by (simp_all add: cfd_def resolveOptions_def)
  have gend: "imp_generateTestsForFile deadExecutor (cfg_filePath cfd) (finalTestType cfd)
      (finalRequirements cfd) emptyWorld = (Inr [0], storedWorld)"
    unfolding d by (simp add: deadExecutor_def repoImports_def demo_generate)
  have exd: "executeTests deadExecutor cfd [0] storedWorld
      = (Inl (newError ''executor crashed''), storedWorld)"
    by (simp add: executeTests_def d deadExecutor_def)
  from collaborator_errors_are_recorded [OF cfd_def, of deadExecutor emptyWorld]
  have "state (runClosedLoopWorkflow deadExecutor ''wf''
        (Positional ''Calc.java'' (Some jest) None None None) emptyWorld)
      = \<lparr>stage = failed, testCases = [0], testResults = [], bugFixes = [],
         errors = [message (newError ''executor crashed'')]\<rparr>"
    using gend exd by blast
  then have early: "state (runClosedLoopWorkflow deadExecutor ''wf''
        (Positional ''Calc.java'' (Some jest) None None None) emptyWorld)
      = \<lparr>stage = failed, testCases = [0], testResults = [], bugFixes = [],
         errors = [''executor crashed'']\<rparr>"
    by (simp add: newError_def)
  define cfa where "cfa = resolveOptions ''wf'' autoArgs"
  have a: "cfg_filePath cfa = ''Calc.java''" "finalTestType cfa = jest"
    "finalRequirements cfa = None" "finalAutoApplyFixes cfa" "finalMaxRetries cfa = 2"
    by (simp_all add: cfa_def resolveOptions_def autoArgs_def Let_def)
  define W1 where "W1 = storedWorld\<lparr>commands := [''npx jest'']\<rparr>"
  define R0 where "R0 = fixingRun cfa emptyWorld [0] storedWorld [spawnFailure] W1"
  define W2 where "W2 = (storeTestResults [spawnFailure] W1)
      \<lparr>commands := [''npx jest'', ''npx jest'']\<rparr>"
  define R1 where "R1 = recordRetest cfa [spawnFailure] W2
      (enterValidating cfa (sweep crashingImports cfa (int 0) [spawnFailure] R0))"
  have gena: "imp_generateTestsForFile crashingImports (cfg_filePath cfa) (finalTestType cfa)
      (finalRequirements cfa) emptyWorld = (Inr [0], storedWorld)"
    unfolding a by (simp add: crashingImports_def repoImports_def demo_generate)
  have exa: "executeTests crashingImports cfa [0] storedWorld = (Inr [spawnFailure], W1)"
    by (simp add: executeTests_def a crashingImports_def W1_def storedWorld_def emptyWorld_def)
  have f: "failedOf [spawnFailure] = [spawnFailure]"
    by (simp add: failedOf_def spawnFailure_def)
  have bad: "failedOf [spawnFailure] \<noteq> []"
    unfolding f by simp
  have sw: "world (sweep crashingImports cfa n [spawnFailure] R) = world R"
    "state (sweep crashingImports cfa n [spawnFailure] R)
       = (state R)\<lparr>errors := errors (state R) @ [''no fix'']\<rparr>" for n R
    by (simp_all add: sweep_def fixOne_def crashingImports_def newError_def Let_def
          split: option.splits)
  have cw: "commands (snd (storeTestResult spawnFailure w)) = commands w" for w :: "nat world"
    by (simp add: storeTestResult_def)
  have re0: "reexecute crashingImports cfa (int 0) [spawnFailure] R0 = (Inr [spawnFailure], W2)"
    unfolding reexecute_def sw
    by (simp add: R0_def executeTests_def a crashingImports_def cw W1_def W2_def)
  have head0: "roundHead crashingImports cfa 0 0 [spawnFailure] R0
      = Some ([spawnFailure], R0)"
    by simp
  have head1: "roundHead crashingImports cfa (Suc 0) 0 [spawnFailure] R0
      = Some ([spawnFailure], R1)"
    using round_step [OF a(4) head0 _ _ re0 bad] a(5) f by (simp add: R1_def)
  have re1: "executeTests crashingImports cfa
        (testCases (state (sweep crashingImports cfa (int (Suc 0)) [spawnFailure] R1)))
        (world (sweep crashingImports cfa (int (Suc 0)) [spawnFailure] R1))
      = (Inl (newError ''executor crashed''), world R1)"
    unfolding sw
    by (simp add: R1_def executeTests_def a crashingImports_def cw W2_def)
  have k1: "int (Suc 0) < finalMaxRetries cfa" using a by simp
  have head1f: "roundHead crashingImports cfa (Suc 0) 0 (failedOf [spawnFailure])
      (fixingRun cfa emptyWorld [0] storedWorld [spawnFailure] W1) = Some ([spawnFailure], R1)"
    unfolding f using head1 by (simp only: R0_def)
  have fr1: "[spawnFailure] \<noteq> []" by simp
  from collaborator_errors_are_recorded [OF cfa_def, of crashingImports emptyWorld]
  have "state (runClosedLoopWorkflow crashingImports ''wf'' autoArgs emptyWorld) =
      (state (sweep crashingImports cfa (int (Suc 0)) [spawnFailure] R1))
        \<lparr>stage := failed,
         errors := errors (state (sweep crashingImports cfa (int (Suc 0)) [spawnFailure] R1))
           @ [message (newError ''executor crashed'')]\<rparr>"
    using gena exa bad a(4) head1f k1 fr1 re1 by blast
  then have second: "state (runClosedLoopWorkflow crashingImports ''wf'' autoArgs emptyWorld)
      = \<lparr>stage = failed, testCases = [0], testResults = [spawnFailure], bugFixes = [],
         errors = [''no fix'', ''no fix'', ''executor crashed'']\<rparr>"
    by (simp add: sw R1_def R0_def newError_def)
  show ?thesis
    using gen m first early second by simp
qed

end
